theory Spec2Isabelle
  imports Complex_Main "HOL-Library.Char_ord" "HOL-Library.List_Lexorder"
    "HOL-Library.Product_Lexorder" "HOL-Library.Multiset"
begin

section \<open>Numeric cells\<close>

text \<open>
  A numeric cell of a pandas table is a float64 that may be NaN. The model takes the
  number as an exact rational and NaN (a missing value) as \<open>None\<close>. Rounding, overflow
  and the infinities of the machine format are outside the model: every result below is
  a result about the formulas of the scripts in exact arithmetic with missing values.
\<close>

type_synonym num = "rat option"

text \<open>Arithmetic on cells: a missing operand gives a missing result.\<close>

definition nmul :: "num \<Rightarrow> num \<Rightarrow> num" where
  "nmul a b = (case a of None \<Rightarrow> None | Some x \<Rightarrow> (case b of None \<Rightarrow> None | Some y \<Rightarrow> Some (x * y)))"

definition nadd :: "num \<Rightarrow> num \<Rightarrow> num" where
  "nadd a b = (case a of None \<Rightarrow> None | Some x \<Rightarrow> (case b of None \<Rightarrow> None | Some y \<Rightarrow> Some (x + y)))"

definition nsub :: "num \<Rightarrow> num \<Rightarrow> num" where
  "nsub a b = (case a of None \<Rightarrow> None | Some x \<Rightarrow> (case b of None \<Rightarrow> None | Some y \<Rightarrow> Some (x - y)))"

definition ndiv :: "num \<Rightarrow> rat \<Rightarrow> num" where
  "ndiv a c = (case a of None \<Rightarrow> None | Some x \<Rightarrow> Some (x / c))"

text \<open>\<open>Series.notna\<close>, \<open>Series.fillna(v)\<close> and \<open>Series.clip(upper=u)\<close>, cell by cell.\<close>

definition notna :: "'a option \<Rightarrow> bool" where
  "notna a = (case a of None \<Rightarrow> False | Some _ \<Rightarrow> True)"

definition fillna :: "'a \<Rightarrow> 'a option \<Rightarrow> 'a option" where
  "fillna v a = (case a of None \<Rightarrow> Some v | Some x \<Rightarrow> Some x)"

definition clip_upper :: "rat \<Rightarrow> num \<Rightarrow> num" where
  "clip_upper u a = (case a of None \<Rightarrow> None | Some x \<Rightarrow> Some (if u < x then u else x))"

text \<open>A comparison with a missing value is false: \<open>col > c\<close> on one cell.\<close>

definition gt_cell :: "num \<Rightarrow> rat \<Rightarrow> bool" where
  "gt_cell a c = (case a of None \<Rightarrow> False | Some x \<Rightarrow> c < x)"

section \<open>Tables\<close>

text \<open>
  A table is the list of its rows, in row order. Every table that carries a vessel
  identifier has the column \<open>imo\<close>; the later stages of a job add columns to the rows
  of the earlier ones, which the record extensions follow.
\<close>

record vessel =
  imo :: string

text \<open>
  A row of \<open>ais_dataset.csv\<close>. The timestamp is the cell after
  \<open>pd.to_datetime(..., errors='coerce')\<close>: an instant in nanoseconds (a datetime64
  value, so an int64 other than the NaT sentinel \<open>-2^63\<close>), or \<open>None\<close> for NaT (an absent
  or invalid timestamp). The fuel category may be missing.
\<close>

record ais_row = vessel +
  timestamp :: "int option"
  ael :: num
  abl :: num
  fuel_category :: "string option"

record dur_row = ais_row +
  activity_duration_hours :: num

record merged_row = dur_row +
  sfc_ae :: num
  sfc_ab :: num

record emis_row = merged_row +
  aux_emissions_after_jit :: num
  boiler_emissions_after_jit :: num
  jit_activity_duration_hours :: num
  total_emissions_grams_after_jit :: num
  total_emissions_tonnes_after_jit :: num

text \<open>Assigning new columns to a row.\<close>

definition with_duration :: "ais_row \<Rightarrow> num \<Rightarrow> dur_row" where
  "with_duration r d = ais_row.extend r (dur_row.fields d)"

definition with_factors :: "dur_row \<Rightarrow> num \<Rightarrow> num \<Rightarrow> merged_row" where
  "with_factors r a b = dur_row.extend r (merged_row.fields a b)"

definition with_emissions :: "merged_row \<Rightarrow> num \<Rightarrow> num \<Rightarrow> num \<Rightarrow> num \<Rightarrow> num \<Rightarrow> emis_row" where
  "with_emissions r a b j g t = merged_row.extend r (emis_row.fields a b j g t)"

section \<open>Job B: emissions after JIT\<close>

subsection \<open>Per-record emissions\<close>

text \<open>
  \<open>calculate_emissions_after_jit\<close> on one row. Both emission columns start at \<open>0.0\<close>;
  the product is assigned where the mask (load and factor both present) holds. The
  product is evaluated left to right, as Python does.
\<close>

definition calculate_emissions_after_jit_row :: "merged_row \<Rightarrow> emis_row" where
  "calculate_emissions_after_jit_row r =
     (let jit = clip_upper 3 (activity_duration_hours r);
          aux = (if notna (ael r) \<and> notna (sfc_ae r)
                 then nmul (nmul (nmul (nmul (ael r) jit) (sfc_ae r)) (Some (867 / 1000))) (Some (3667 / 1000))
                 else Some 0);
          boiler = (if notna (abl r) \<and> notna (sfc_ab r)
                 then nmul (nmul (nmul (nmul (abl r) jit) (sfc_ab r)) (Some (867 / 1000))) (Some (3667 / 1000))
                 else Some 0);
          grams = nadd aux boiler;
          tonnes = ndiv grams 1000000
      in with_emissions r aux boiler jit grams tonnes)"

definition calculate_emissions_after_jit :: "merged_row list \<Rightarrow> emis_row list" where
  "calculate_emissions_after_jit data = map calculate_emissions_after_jit_row data"

subsection \<open>Duration between consecutive records\<close>

datatype error = KeyError string | AttributeError string | OverflowError string
  | ValueError string | NameError string

text \<open>
  What \<open>calculate_duration\<close> can see of the column \<open>timestamp\<close>: it is not a column of
  the table; it is a datetime64 column; or it has another dtype (a column of numbers
  that was not converted), whose differences are plain numbers, on which the accessor
  \<open>.dt\<close> raises AttributeError. The cells of the row records are read only when the
  column exists.
\<close>

datatype ts_dtype = No_column | Datetime64 | Other_dtype

record 'r frame =
  timestamp_dtype :: ts_dtype
  rows :: "'r list"

text \<open>
  \<open>df.sort_values(['imo', 'timestamp'])\<close>: a stable sort by identifier, then by
  timestamp with the missing timestamps last.
\<close>

definition ts_key :: "int option \<Rightarrow> nat \<times> int" where
  "ts_key t = (case t of Some n \<Rightarrow> (0, n) | None \<Rightarrow> (1, 0))"

definition sort_values_imo_timestamp :: "ais_row list \<Rightarrow> ais_row list" where
  "sort_values_imo_timestamp rs = sort_key (\<lambda>r. (imo r, ts_key (timestamp r))) rs"

text \<open>
  The difference of two datetime64 cells. pandas adds the int64 values with an overflow
  check: a difference outside the int64 range raises OverflowError, a missing operand
  gives NaT, and so does a difference equal to the NaT sentinel.
\<close>

definition ts_minus :: "int option \<Rightarrow> int option \<Rightarrow> error + int option" where
  "ts_minus cur prev =
     (case cur of
        None \<Rightarrow> Inr None
      | Some c \<Rightarrow>
          (case prev of
             None \<Rightarrow> Inr None
           | Some p \<Rightarrow>
               if c - p < - (2 ^ 63) \<or> 2 ^ 63 - 1 < c - p
               then Inl (OverflowError ''Overflow in int64 addition'')
               else if c - p = - (2 ^ 63) then Inr None
               else Inr (Some (c - p))))"

text \<open>
  \<open>df.groupby('imo')['timestamp'].diff()\<close> on a datetime64 column: each row's timestamp
  minus the timestamp of the previous row of the same vessel, in row order; missing for
  the first row of a vessel and whenever one of the two timestamps is missing; the
  whole operation raises when one difference overflows. The first argument maps a
  vessel to the timestamp of its latest row so far.
\<close>

fun groupby_diff :: "(string \<rightharpoonup> int option) \<Rightarrow> ais_row list \<Rightarrow> error + int option list" where
  "groupby_diff seen [] = Inr []"
| "groupby_diff seen (r # rs) =
     (case (case seen (imo r) of None \<Rightarrow> Inr None | Some prev \<Rightarrow> ts_minus (timestamp r) prev) of
        Inl e \<Rightarrow> Inl e
      | Inr d \<Rightarrow>
          (case groupby_diff (seen(imo r \<mapsto> timestamp r)) rs of
             Inl e \<Rightarrow> Inl e
           | Inr ds \<Rightarrow> Inr (d # ds)))"

text \<open>\<open>.dt.total_seconds() / 3600\<close> of a difference in nanoseconds.\<close>

definition total_hours :: "int option \<Rightarrow> num" where
  "total_hours d = (case d of None \<Rightarrow> None | Some n \<Rightarrow> Some (of_int n / 1000000000 / 3600))"

text \<open>\<open>df.loc[df[c] > 24, c] = 24\<close> on one cell.\<close>

definition cap_24 :: "num \<Rightarrow> num" where
  "cap_24 d = (if gt_cell d 24 then Some 24 else d)"

definition assign_durations :: "ais_row frame \<Rightarrow> num list \<Rightarrow> dur_row frame" where
  "assign_durations df ds =
     \<lparr>timestamp_dtype = timestamp_dtype df, rows = map (\<lambda>(r, d). with_duration r d) (zip (rows df) ds)\<rparr>"

definition cap_durations :: "dur_row frame \<Rightarrow> dur_row frame" where
  "cap_durations df =
     df\<lparr>rows := map (\<lambda>r. r\<lparr>activity_duration_hours := cap_24 (activity_duration_hours r)\<rparr>) (rows df)\<rparr>"

text \<open>
  The body of the \<open>try\<close> of \<open>calculate_duration\<close>. It raises OverflowError when a
  difference of a datetime64 column overflows, and AttributeError at \<open>.dt\<close> when the
  column is not datetime64. When it raises, the result holds the exception and the
  table that the variable \<open>df\<close> is bound to at that point (the sorted copy), which is
  the table the handler goes on with.
\<close>

definition calculate_duration_try :: "ais_row frame \<Rightarrow> (error \<times> ais_row frame) + dur_row frame" where
  "calculate_duration_try df =
     (if timestamp_dtype df \<noteq> No_column then
        (let df1 = df\<lparr>rows := sort_values_imo_timestamp (rows df)\<rparr> in
         if timestamp_dtype df1 = Datetime64
         then (case groupby_diff Map.empty (rows df1) of
                 Inl e \<Rightarrow> Inl (e, df1)
               | Inr deltas \<Rightarrow>
                   Inr (cap_durations (assign_durations df1 (map (\<lambda>d. fillna 1 (total_hours d)) deltas))))
         else Inl (AttributeError ''Can only use .dt accessor with datetimelike values'', df1))
      else Inr (cap_durations (assign_durations df (replicate (length (rows df)) (Some 1)))))"

text \<open>
  \<open>calculate_duration\<close>: the handler of \<open>except Exception\<close> catches whatever the body
  raised, sets the column to 1 on every row and returns the table. The result type has an error side as every function
  of the pipeline has; this function never uses it.
\<close>

definition calculate_duration :: "ais_row frame \<Rightarrow> error + dur_row frame" where
  "calculate_duration df =
     (case calculate_duration_try df of
        Inr out \<Rightarrow> Inr out
      | Inl (e, df1) \<Rightarrow> Inr (assign_durations df1 (replicate (length (rows df1)) (Some 1))))"

subsection \<open>Preprocessing and the factor tables\<close>

text \<open>\<open>Series.unique()\<close>: the distinct values in order of first appearance.\<close>

definition unique :: "'a list \<Rightarrow> 'a list" where
  "unique xs = rev (remdups (rev xs))"

text \<open>
  \<open>preprocess_data\<close>. The table it is given is \<open>ais_data\<close> with the timestamp column as
  \<open>pd.to_datetime(df['timestamp'], errors='coerce')\<close> leaves it; reading that column
  raises KeyError when the table has none. The columns \<open>ael\<close> and \<open>abl\<close> are columns of
  the input table, so \<open>df.get\<close> returns them; \<open>fill_loads\<close> is the two \<open>fillna(0)\<close> on one
  row.
\<close>

definition fill_loads :: "ais_row \<Rightarrow> ais_row" where
  "fill_loads r = r\<lparr>ael := fillna 0 (ael r), abl := fillna 0 (abl r)\<rparr>"

definition preprocess_data :: "ais_row frame \<Rightarrow> error + (dur_row frame \<times> string list)" where
  "preprocess_data ais_data =
     (if timestamp_dtype ais_data = No_column then Inl (KeyError ''timestamp'')
      else
        (let all_imos = unique (map imo (rows ais_data));
             df = ais_data\<lparr>rows := map fill_loads (rows ais_data)\<rparr>
         in case calculate_duration df of
              Inl e \<Rightarrow> Inl e
            | Inr df2 \<Rightarrow> Inr (df2, all_imos)))"

text \<open>
  A factor table is the list of its rows (fuel category, factor). The cells joined to a
  key by a left merge: the factor of every row of the table with that key, in table
  order, and one missing cell when no row has it. Missing keys match each other, as in
  \<open>pd.merge\<close>.
\<close>

definition merge_cells :: "('k \<times> 'v option) list \<Rightarrow> 'k \<Rightarrow> 'v option list" where
  "merge_cells tbl k =
     (let ms = map snd (filter (\<lambda>p. fst p = k) tbl) in if ms = [] then [None] else ms)"

definition merge_emission_factors ::
  "dur_row list \<Rightarrow> (string option \<times> num) list \<Rightarrow> (string option \<times> num) list \<Rightarrow> merged_row list" where
  "merge_emission_factors ais_data aux_engine_factors boiler_engine_factors =
     concat (map (\<lambda>r.
       concat (map (\<lambda>a.
         map (\<lambda>b. with_factors r (fillna 0 a) (fillna 0 b))
           (merge_cells boiler_engine_factors (fuel_category r)))
         (merge_cells aux_engine_factors (fuel_category r))))
       ais_data)"

section \<open>Range bucketing\<close>

text \<open>
  \<open>pd.cut(x, bins, labels)\<close> with its defaults \<open>right=True\<close> and
  \<open>include_lowest=False\<close>, on one cell. A bin edge is a number or an infinity. pandas
  takes \<open>bins.searchsorted(x, side='left')\<close>, which on increasing edges is the number
  of edges strictly below the value, and gives no label (NaN) when that index is 0 or
  the number of edges, or when the value is missing; otherwise the label of the bin
  before the index. So bin \<open>i\<close> is the interval from edge \<open>i\<close> (excluded) to edge
  \<open>i + 1\<close> (included).
\<close>

datatype edge = Neg_inf | Fin rat | Pos_inf

fun edge_below :: "edge \<Rightarrow> rat \<Rightarrow> bool" where
  "edge_below Neg_inf x = True"
| "edge_below (Fin b) x = (b < x)"
| "edge_below Pos_inf x = False"

definition searchsorted_left :: "edge list \<Rightarrow> rat \<Rightarrow> nat" where
  "searchsorted_left bins x = length (takeWhile (\<lambda>b. edge_below b x) bins)"

definition cut :: "edge list \<Rightarrow> string list \<Rightarrow> num \<Rightarrow> string option" where
  "cut bins labels x =
     (case x of
        None \<Rightarrow> None
      | Some v \<Rightarrow>
          (let ids = searchsorted_left bins v
           in if ids = length bins \<or> ids = 0 then None else Some (labels ! (ids - 1))))"

text \<open>The bins of the emission jobs (A and B) and of the savings job (C).\<close>

definition emission_range_of :: "num \<Rightarrow> string option" where
  "emission_range_of x =
     cut [Fin 0, Fin (1 / 1000), Fin 1, Fin 10, Fin 50, Fin 100, Pos_inf]
       [''Zero'', ''0-1'', ''1-10'', ''10-50'', ''50-100'', ''100+''] x"

definition savings_range_of :: "num \<Rightarrow> string option" where
  "savings_range_of x =
     cut [Neg_inf, Fin (- (1 / 1000)), Fin (1 / 1000), Fin 1, Fin 10, Fin 50, Fin 100, Pos_inf]
       [''Negative'', ''Zero'', ''0-1'', ''1-10'', ''10-50'', ''50-100'', ''100+''] x"

section \<open>Job B: aggregation per vessel\<close>

record after_jit_row = vessel +
  anc_after_jit :: num

record final_row = after_jit_row +
  emission_range :: "string option"

text \<open>
  \<open>data.groupby('imo')[c].sum().reset_index()\<close>: one row per identifier of the table, in
  increasing order of the identifiers, with the sum of the cells of its rows; the sum
  skips missing cells.
\<close>

definition cell_or_0 :: "num \<Rightarrow> rat" where
  "cell_or_0 a = (case a of None \<Rightarrow> 0 | Some x \<Rightarrow> x)"

definition groupby_sum :: "emis_row list \<Rightarrow> (string \<times> num) list" where
  "groupby_sum data =
     map (\<lambda>k. (k, Some (sum_list (map (\<lambda>r. cell_or_0 (total_emissions_tonnes_after_jit r))
                                    (filter (\<lambda>r. imo r = k) data)))))
       (sort (remdups (map imo data)))"

text \<open>
  \<open>aggregate_and_analyze_emissions\<close>: the left merge of \<open>all_imos\<close> with the sums, the
  missing sums filled with 0, the rows sorted by identifier, and the range column. The
  printing and the two files written are not part of the model; the table returned is
  the table written.
\<close>

definition aggregate_and_analyze_emissions :: "emis_row list \<Rightarrow> string list \<Rightarrow> final_row list" where
  "aggregate_and_analyze_emissions data all_imos =
     (let emissions_by_imo = groupby_sum data;
          final_emissions = concat (map (\<lambda>i. map (\<lambda>v. (i, fillna 0 v)) (merge_cells emissions_by_imo i)) all_imos)
      in map (\<lambda>(i, v). \<lparr>imo = i, anc_after_jit = v, emission_range = emission_range_of v\<rparr>)
           (sort_key fst final_emissions))"

text \<open>
  \<open>main\<close>, from the tables that \<open>load_data\<close> returns. \<open>main_emissions_data\<close> is \<open>main\<close> up
  to its local variable \<open>emissions_data\<close>, with \<open>all_imos\<close>.
\<close>

definition main_emissions_data ::
  "ais_row frame \<Rightarrow> (string option \<times> num) list \<Rightarrow> (string option \<times> num) list
     \<Rightarrow> error + (emis_row list \<times> string list)" where
  "main_emissions_data ais_data aux_engine_factors boiler_engine_factors =
     (case preprocess_data ais_data of
        Inl e \<Rightarrow> Inl e
      | Inr (processed_data, all_imos) \<Rightarrow>
          (let merged_data = merge_emission_factors (rows processed_data) aux_engine_factors boiler_engine_factors
           in Inr (calculate_emissions_after_jit merged_data, all_imos)))"

definition main ::
  "ais_row frame \<Rightarrow> (string option \<times> num) list \<Rightarrow> (string option \<times> num) list
     \<Rightarrow> error + final_row list" where
  "main ais_data aux_engine_factors boiler_engine_factors =
     (case main_emissions_data ais_data aux_engine_factors boiler_engine_factors of
        Inl e \<Rightarrow> Inl e
      | Inr (emissions_data, all_imos) \<Rightarrow> Inr (aggregate_and_analyze_emissions emissions_data all_imos))"

section \<open>Job A: emissions before JIT\<close>

text \<open>
  \<open>load_and_analyze_data\<close>, from the table read from \<open>anc_before_jit.csv\<close>: rows
  (identifier, \<open>anc_before_jit\<close>). The identifier column is read without a dtype, so
  it is a number or a string: any linearly ordered type. The table returned is the
  input sorted by identifier, with the range column. (\<open>sort_values\<close> on one column does
  not fix the order of rows with equal identifiers; the model keeps their input order.)
\<close>

definition load_and_analyze_data :: "('k::linorder \<times> num) list \<Rightarrow> ('k \<times> num \<times> string option) list" where
  "load_and_analyze_data emissions_df =
     map (\<lambda>(i, v). (i, v, emission_range_of v)) (sort_key fst emissions_df)"

section \<open>Job C: savings\<close>

text \<open>
  A row of the merged table: the identifier, the two emission columns, the savings and
  the range column. (The column \<open>anc_after_jit\<close> is the one of Job B's output.)
\<close>

record savings_row = after_jit_row +
  anc_before_jit :: num
  anc_savings_after_jit :: num
  savings_range :: "string option"

text \<open>
  \<open>pd.merge(before_jit, after_jit, on='imo', how='outer')\<close> on the columns
  (identifier, value): every row of the left table with each row of the right table
  that has its identifier (or with a missing cell when none has), then the rows of the
  right table whose identifier the left table does not have.
\<close>

definition merge_outer :: "(string \<times> num) list \<Rightarrow> (string \<times> num) list \<Rightarrow> (string \<times> num \<times> num) list" where
  "merge_outer before_jit after_jit =
     concat (map (\<lambda>(i, b). map (\<lambda>a. (i, b, a)) (merge_cells after_jit i)) before_jit)
     @ map (\<lambda>(i, a). (i, None, a)) (filter (\<lambda>p. fst p \<notin> fst ` set before_jit) after_jit)"

text \<open>
  \<open>calculate_emission_savings\<close>, from the results of the two calls of
  \<open>safe_read_csv\<close>: a table (identifiers as strings), or \<open>None\<close> when reading failed.
  The handler prints and raises the exception again. (As in Job A, the order of rows
  with equal identifiers after \<open>sort_values('imo')\<close> is not fixed by pandas; the model
  keeps the order of the merge.)
\<close>

definition calculate_emission_savings ::
  "(string \<times> num) list option \<Rightarrow> (string \<times> num) list option \<Rightarrow> error + savings_row list" where
  "calculate_emission_savings before_jit after_jit =
     (case before_jit of
        None \<Rightarrow> Inl (ValueError ''Failed to load one or both CSV files'')
      | Some before_tbl \<Rightarrow>
          (case after_jit of
             None \<Rightarrow> Inl (ValueError ''Failed to load one or both CSV files'')
           | Some after_tbl \<Rightarrow>
               Inr (map (\<lambda>(i, b, a).
                          (let b0 = fillna 0 b; a0 = fillna 0 a; s = nsub b0 a0
                           in \<lparr>imo = i, anc_after_jit = a0, anc_before_jit = b0,
                                anc_savings_after_jit = s, savings_range = savings_range_of s\<rparr>))
                      (sort_key fst (merge_outer before_tbl after_tbl)))))"

section \<open>Script entry points\<close>

text \<open>
  Running a file as a script executes its top-level statements in the module's
  namespace. An \<open>import ... as\<close> and a \<open>def\<close> bind a name; reading a name looks it up
  in the module's globals, then in the builtins, and raises NameError when neither binds
  it. The result of a run is the exception that ended it, if any, and the functions
  that the statements under the entry-point guard called.
\<close>

datatype pyval = Str string | Module string | Function string

definition load_name :: "(string \<rightharpoonup> pyval) \<Rightarrow> (string \<rightharpoonup> pyval) \<Rightarrow> string \<Rightarrow> error + pyval" where
  "load_name builtins globals n =
     (case globals n of
        Some v \<Rightarrow> Inr v
      | None \<Rightarrow> (case builtins n of Some v \<Rightarrow> Inr v | None \<Rightarrow> Inl (NameError n)))"

text \<open>The globals of a file run as a script, as far as the guards read them.\<close>

definition script_globals :: "string \<rightharpoonup> pyval" where
  "script_globals = [''__name__'' \<mapsto> Str ''__main__'']"

text \<open>\<open>anc_after_jit.py\<close>: its guard reads \<open>name\<close>.\<close>

definition anc_after_jit_script :: "(string \<rightharpoonup> pyval) \<Rightarrow> (string \<rightharpoonup> pyval) \<Rightarrow> error option \<times> string list" where
  "anc_after_jit_script builtins g0 =
     (let g = g0(''pd'' \<mapsto> Module ''pandas'', ''np'' \<mapsto> Module ''numpy'',
                 ''load_data'' \<mapsto> Function ''load_data'',
                 ''calculate_duration'' \<mapsto> Function ''calculate_duration'',
                 ''preprocess_data'' \<mapsto> Function ''preprocess_data'',
                 ''merge_emission_factors'' \<mapsto> Function ''merge_emission_factors'',
                 ''calculate_emissions_after_jit'' \<mapsto> Function ''calculate_emissions_after_jit'',
                 ''aggregate_and_analyze_emissions'' \<mapsto> Function ''aggregate_and_analyze_emissions'',
                 ''main'' \<mapsto> Function ''main'')
      in case load_name builtins g ''name'' of
           Inl e \<Rightarrow> (Some e, [])
         | Inr v \<Rightarrow> if v = Str ''__main__'' then (None, [''main'']) else (None, []))"

text \<open>\<open>anc_before_jit.py\<close>: its guard reads \<open>name\<close> too.\<close>

definition anc_before_jit_script :: "(string \<rightharpoonup> pyval) \<Rightarrow> (string \<rightharpoonup> pyval) \<Rightarrow> error option \<times> string list" where
  "anc_before_jit_script builtins g0 =
     (let g = g0(''pd'' \<mapsto> Module ''pandas'', ''np'' \<mapsto> Module ''numpy'',
                 ''load_and_analyze_data'' \<mapsto> Function ''load_and_analyze_data'',
                 ''display_specific_imo_range'' \<mapsto> Function ''display_specific_imo_range'')
      in case load_name builtins g ''name'' of
           Inl e \<Rightarrow> (Some e, [])
         | Inr v \<Rightarrow> if v = Str ''__main__'' then (None, [''load_and_analyze_data'']) else (None, []))"

text \<open>\<open>anc_savings_after_jit.py\<close>: its guard reads \<open>__name__\<close>.\<close>

definition anc_savings_after_jit_script :: "(string \<rightharpoonup> pyval) \<Rightarrow> (string \<rightharpoonup> pyval) \<Rightarrow> error option \<times> string list" where
  "anc_savings_after_jit_script builtins g0 =
     (let g = g0(''pd'' \<mapsto> Module ''pandas'', ''np'' \<mapsto> Module ''numpy'',
                 ''safe_read_csv'' \<mapsto> Function ''safe_read_csv'',
                 ''calculate_emission_savings'' \<mapsto> Function ''calculate_emission_savings'')
      in case load_name builtins g ''__name__'' of
           Inl e \<Rightarrow> (Some e, [])
         | Inr v \<Rightarrow> if v = Str ''__main__'' then (None, [''calculate_emission_savings'']) else (None, []))"

section \<open>Sample inputs\<close>

text \<open>The record of the specification's example: load 10, factor 2, three hours.\<close>

definition example_row :: merged_row where
  "example_row = \<lparr>imo = ''IMO1'', timestamp = None, ael = Some 10, abl = Some 0, fuel_category = None,
     activity_duration_hours = Some 3, sfc_ae = Some 2, sfc_ab = Some 0\<rparr>"

text \<open>A few of Python's builtins; none of them is called \<open>name\<close>.\<close>

definition some_builtins :: "string \<rightharpoonup> pyval" where
  "some_builtins = [''print'' \<mapsto> Function ''print'', ''len'' \<mapsto> Function ''len'',
     ''min'' \<mapsto> Function ''min'', ''range'' \<mapsto> Function ''range'', ''input'' \<mapsto> Function ''input'',
     ''str'' \<mapsto> Function ''str'']"

text \<open>
  A small run of Job B: one vessel with three records, two of them five hours apart
  (the earlier one without a boiler load) and one without a valid timestamp, and one
  fuel category in both factor tables.
\<close>

definition sample_ais :: "ais_row frame" where
  "sample_ais = \<lparr>timestamp_dtype = Datetime64, rows =
     [\<lparr>imo = ''IMO1'', timestamp = Some 18000000000000, ael = Some 10, abl = Some 4, fuel_category = Some ''HFO''\<rparr>,
      \<lparr>imo = ''IMO1'', timestamp = None, ael = Some 6, abl = Some 2, fuel_category = Some ''HFO''\<rparr>,
      \<lparr>imo = ''IMO1'', timestamp = Some 0, ael = Some 10, abl = None, fuel_category = Some ''HFO''\<rparr>]\<rparr>"

definition sample_aux_factors :: "(string option \<times> num) list" where
  "sample_aux_factors = [(Some ''HFO'', Some 2)]"

definition sample_boiler_factors :: "(string option \<times> num) list" where
  "sample_boiler_factors = [(Some ''HFO'', Some 1)]"

definition sample_processed :: "dur_row frame" where
  "sample_processed = \<lparr>timestamp_dtype = Datetime64, rows =
     [\<lparr>imo = ''IMO1'', timestamp = Some 0, ael = Some 10, abl = Some 0, fuel_category = Some ''HFO'',
        activity_duration_hours = Some 1\<rparr>,
      \<lparr>imo = ''IMO1'', timestamp = Some 18000000000000, ael = Some 10, abl = Some 4, fuel_category = Some ''HFO'',
        activity_duration_hours = Some 5\<rparr>,
      \<lparr>imo = ''IMO1'', timestamp = None, ael = Some 6, abl = Some 2, fuel_category = Some ''HFO'',
        activity_duration_hours = Some 1\<rparr>]\<rparr>"

definition sample_merged :: "merged_row list" where
  "sample_merged =
     [\<lparr>imo = ''IMO1'', timestamp = Some 0, ael = Some 10, abl = Some 0, fuel_category = Some ''HFO'',
        activity_duration_hours = Some 1, sfc_ae = Some 2, sfc_ab = Some 1\<rparr>,
      \<lparr>imo = ''IMO1'', timestamp = Some 18000000000000, ael = Some 10, abl = Some 4, fuel_category = Some ''HFO'',
        activity_duration_hours = Some 5, sfc_ae = Some 2, sfc_ab = Some 1\<rparr>,
      \<lparr>imo = ''IMO1'', timestamp = None, ael = Some 6, abl = Some 2, fuel_category = Some ''HFO'',
        activity_duration_hours = Some 1, sfc_ae = Some 2, sfc_ab = Some 1\<rparr>]"

text \<open>
  A datetime64 table of one vessel whose two records (years 1684 and 2255) are further
  apart than an int64 of nanoseconds can hold.
\<close>

definition sample_ais_overflow :: "ais_row frame" where
  "sample_ais_overflow = \<lparr>timestamp_dtype = Datetime64, rows =
     [\<lparr>imo = ''IMO1'', timestamp = Some (- 9000000000000000000), ael = Some 10, abl = Some 4,
        fuel_category = Some ''HFO''\<rparr>,
      \<lparr>imo = ''IMO1'', timestamp = Some 9000000000000000000, ael = Some 10, abl = Some 4,
        fuel_category = Some ''HFO''\<rparr>]\<rparr>"

text \<open>The sample table with a timestamp column that is not datetime64.\<close>

definition sample_ais_other :: "ais_row frame" where
  "sample_ais_other = sample_ais\<lparr>timestamp_dtype := Other_dtype\<rparr>"

text \<open>
  Tables for Job C: one vessel in both tables and one only in the before table; and a
  before table with two rows for one vessel.
\<close>

definition sample_before :: "(string \<times> num) list" where
  "sample_before = [(''IMO2'', Some 2), (''IMO1'', Some 5)]"

definition sample_after :: "(string \<times> num) list" where
  "sample_after = [(''IMO1'', Some 3)]"

definition duplicate_before :: "(string \<times> num) list" where
  "duplicate_before = [(''IMO1'', Some 1), (''IMO1'', Some 2)]"

text \<open>A before table with less emissions than the after table has, and one with a negative value.\<close>

definition negative_before :: "(string \<times> num) list" where
  "negative_before = [(''IMO1'', Some (- 5))]"


definition smaller_before :: "(string \<times> num) list" where
  "smaller_before = [(''IMO1'', Some 1)]"

section \<open>Row assignments read back\<close>

lemma with_duration_sel [simp]:
  "imo (with_duration r d) = imo r"
  "timestamp (with_duration r d) = timestamp r"
  "ael (with_duration r d) = ael r"
  "abl (with_duration r d) = abl r"
  "fuel_category (with_duration r d) = fuel_category r"
  "activity_duration_hours (with_duration r d) = d"
  "ais_row.truncate (with_duration r d) = r"
  by (simp_all add: with_duration_def ais_row.defs dur_row.defs)

lemma with_factors_sel [simp]:
  "imo (with_factors r a b) = imo r"
  "timestamp (with_factors r a b) = timestamp r"
  "ael (with_factors r a b) = ael r"
  "abl (with_factors r a b) = abl r"
  "fuel_category (with_factors r a b) = fuel_category r"
  "activity_duration_hours (with_factors r a b) = activity_duration_hours r"
  "sfc_ae (with_factors r a b) = a"
  "sfc_ab (with_factors r a b) = b"
  by (simp_all add: with_factors_def dur_row.defs merged_row.defs)

lemma with_emissions_sel [simp]:
  "imo (with_emissions r a b j g t) = imo r"
  "timestamp (with_emissions r a b j g t) = timestamp r"
  "ael (with_emissions r a b j g t) = ael r"
  "abl (with_emissions r a b j g t) = abl r"
  "fuel_category (with_emissions r a b j g t) = fuel_category r"
  "activity_duration_hours (with_emissions r a b j g t) = activity_duration_hours r"
  "sfc_ae (with_emissions r a b j g t) = sfc_ae r"
  "sfc_ab (with_emissions r a b j g t) = sfc_ab r"
  "aux_emissions_after_jit (with_emissions r a b j g t) = a"
  "boiler_emissions_after_jit (with_emissions r a b j g t) = b"
  "jit_activity_duration_hours (with_emissions r a b j g t) = j"
  "total_emissions_grams_after_jit (with_emissions r a b j g t) = g"
  "total_emissions_tonnes_after_jit (with_emissions r a b j g t) = t"
  by (simp_all add: with_emissions_def merged_row.defs emis_row.defs)

lemma calculate_emissions_after_jit_row_sel:
  "imo (calculate_emissions_after_jit_row r) = imo r"
  "timestamp (calculate_emissions_after_jit_row r) = timestamp r"
  "ael (calculate_emissions_after_jit_row r) = ael r"
  "abl (calculate_emissions_after_jit_row r) = abl r"
  "activity_duration_hours (calculate_emissions_after_jit_row r) = activity_duration_hours r"
  "sfc_ae (calculate_emissions_after_jit_row r) = sfc_ae r"
  "sfc_ab (calculate_emissions_after_jit_row r) = sfc_ab r"
  "jit_activity_duration_hours (calculate_emissions_after_jit_row r) = clip_upper 3 (activity_duration_hours r)"
  "aux_emissions_after_jit (calculate_emissions_after_jit_row r) =
     (if notna (ael r) \<and> notna (sfc_ae r)
      then nmul (nmul (nmul (nmul (ael r) (clip_upper 3 (activity_duration_hours r))) (sfc_ae r)) (Some (867 / 1000))) (Some (3667 / 1000))
      else Some 0)"
  "boiler_emissions_after_jit (calculate_emissions_after_jit_row r) =
     (if notna (abl r) \<and> notna (sfc_ab r)
      then nmul (nmul (nmul (nmul (abl r) (clip_upper 3 (activity_duration_hours r))) (sfc_ab r)) (Some (867 / 1000))) (Some (3667 / 1000))
      else Some 0)"
  "total_emissions_grams_after_jit (calculate_emissions_after_jit_row r) =
     nadd (aux_emissions_after_jit (calculate_emissions_after_jit_row r))
          (boiler_emissions_after_jit (calculate_emissions_after_jit_row r))"
  "total_emissions_tonnes_after_jit (calculate_emissions_after_jit_row r) =
     ndiv (total_emissions_grams_after_jit (calculate_emissions_after_jit_row r)) 1000000"
  by (simp_all add: calculate_emissions_after_jit_row_def Let_def)

lemma savings_searchsorted:
  "searchsorted_left [Neg_inf, Fin (- (1 / 1000)), Fin (1 / 1000), Fin 1, Fin 10, Fin 50, Fin 100, Pos_inf] v =
     (if v \<le> - (1 / 1000) then 1 else if v \<le> 1 / 1000 then 2 else if v \<le> 1 then 3
      else if v \<le> 10 then 4 else if v \<le> 50 then 5 else if v \<le> 100 then 6 else 7)"
  by (simp add: searchsorted_left_def)

lemma emissions_row_formula:
  assumes "ael m = Some a" "abl m = Some b" "sfc_ae m = Some e" "sfc_ab m = Some f"
    and "activity_duration_hours m = Some d0"
  shows "jit_activity_duration_hours (calculate_emissions_after_jit_row m) = Some (min d0 3)"
    and "aux_emissions_after_jit (calculate_emissions_after_jit_row m)
           = Some (a * min d0 3 * e * (867 / 1000) * (3667 / 1000))"
    and "boiler_emissions_after_jit (calculate_emissions_after_jit_row m)
           = Some (b * min d0 3 * f * (867 / 1000) * (3667 / 1000))"
    and "total_emissions_grams_after_jit (calculate_emissions_after_jit_row m)
           = Some (a * min d0 3 * e * (867 / 1000) * (3667 / 1000)
                   + b * min d0 3 * f * (867 / 1000) * (3667 / 1000))"
    and "total_emissions_tonnes_after_jit (calculate_emissions_after_jit_row m)
           = Some ((a * min d0 3 * e * (867 / 1000) * (3667 / 1000)
                   + b * min d0 3 * f * (867 / 1000) * (3667 / 1000)) / 1000000)"
proof -
  have clip: "clip_upper 3 (Some d0) = Some (min d0 3)"
    by (simp add: clip_upper_def min_def)
  show "jit_activity_duration_hours (calculate_emissions_after_jit_row m) = Some (min d0 3)"
    using assms clip by (simp add: calculate_emissions_after_jit_row_sel)
  show aux: "aux_emissions_after_jit (calculate_emissions_after_jit_row m)
           = Some (a * min d0 3 * e * (867 / 1000) * (3667 / 1000))"
    using assms clip by (simp add: calculate_emissions_after_jit_row_sel notna_def nmul_def)
  show boiler: "boiler_emissions_after_jit (calculate_emissions_after_jit_row m)
           = Some (b * min d0 3 * f * (867 / 1000) * (3667 / 1000))"
    using assms clip by (simp add: calculate_emissions_after_jit_row_sel notna_def nmul_def)
  show grams: "total_emissions_grams_after_jit (calculate_emissions_after_jit_row m)
           = Some (a * min d0 3 * e * (867 / 1000) * (3667 / 1000)
                   + b * min d0 3 * f * (867 / 1000) * (3667 / 1000))"
    unfolding calculate_emissions_after_jit_row_sel(11) aux boiler by (simp add: nadd_def)
  show "total_emissions_tonnes_after_jit (calculate_emissions_after_jit_row m)
           = Some ((a * min d0 3 * e * (867 / 1000) * (3667 / 1000)
                   + b * min d0 3 * f * (867 / 1000) * (3667 / 1000)) / 1000000)"
    unfolding calculate_emissions_after_jit_row_sel(12) grams by (simp add: ndiv_def)
qed

section \<open>Facts about the duration column\<close>

lemma groupby_diff_length: "groupby_diff seen rs = Inr ds \<Longrightarrow> length ds = length rs"
  by (induction rs arbitrary: seen ds) (auto split: sum.splits option.splits)

lemma ts_minus_NaT: "ts_minus None prev = Inr None"
  by (simp add: ts_minus_def)

lemma groupby_diff_NaT:
  "groupby_diff seen rs = Inr ds \<Longrightarrow> i < length rs \<Longrightarrow> timestamp (rs ! i) = None \<Longrightarrow> ds ! i = None"
proof (induction rs arbitrary: seen i ds)
  case Nil
  then show ?case by simp
next
  case (Cons r rs)
  from Cons.prems(1) obtain d ds' where
    d: "(case seen (imo r) of None \<Rightarrow> Inr None | Some prev \<Rightarrow> ts_minus (timestamp r) prev) = Inr d"
    and rest: "groupby_diff (seen(imo r \<mapsto> timestamp r)) rs = Inr ds'"
    and ds: "ds = d # ds'"
    by (auto split: sum.splits)
  show ?case
  proof (cases i)
    case 0
    with Cons.prems(3) d have "d = None" by (simp add: ts_minus_NaT split: option.splits)
    with 0 ds show ?thesis by simp
  next
    case (Suc k)
    with Cons.prems have "k < length rs" "timestamp (rs ! k) = None" by simp_all
    from Cons.IH [OF rest this] Suc ds show ?thesis by simp
  qed
qed

lemma groupby_diff_first:
  "groupby_diff seen rs = Inr ds \<Longrightarrow> i < length rs \<Longrightarrow> seen (imo (rs ! i)) = None
     \<Longrightarrow> \<forall>j<i. imo (rs ! j) \<noteq> imo (rs ! i) \<Longrightarrow> ds ! i = None"
proof (induction rs arbitrary: seen i ds)
  case Nil
  then show ?case by simp
next
  case (Cons r rs)
  from Cons.prems(1) obtain d ds' where
    d: "(case seen (imo r) of None \<Rightarrow> Inr None | Some prev \<Rightarrow> ts_minus (timestamp r) prev) = Inr d"
    and rest: "groupby_diff (seen(imo r \<mapsto> timestamp r)) rs = Inr ds'"
    and ds: "ds = d # ds'"
    by (auto split: sum.splits)
  show ?case
  proof (cases i)
    case 0
    with Cons.prems(3) d have "d = None" by simp
    with 0 ds show ?thesis by simp
  next
    case (Suc k)
    from Cons.prems(4) Suc have ne: "imo r \<noteq> imo (rs ! k)" by auto
    have later: "\<forall>j<k. imo (rs ! j) \<noteq> imo (rs ! k)"
    proof (intro allI impI)
      fix j assume "j < k"
      then have "Suc j < i" using Suc by simp
      with Cons.prems(4) have "imo ((r # rs) ! Suc j) \<noteq> imo ((r # rs) ! i)" by blast
      then show "imo (rs ! j) \<noteq> imo (rs ! k)" using Suc by simp
    qed
    have unseen: "(seen(imo r \<mapsto> timestamp r)) (imo (rs ! k)) = None"
      using Cons.prems(3) Suc ne by simp
    have k: "k < length rs" using Cons.prems(2) Suc by simp
    have "ds' ! k = None"
      by (rule Cons.IH [OF rest k unseen later])
    then show ?thesis using Suc ds by simp
  qed
qed

lemma with_duration_update [simp]:
  "(with_duration r d)\<lparr>activity_duration_hours := x\<rparr> = with_duration r x"
  by (simp add: with_duration_def ais_row.defs dur_row.defs)

lemma cap_24_Some: "\<exists>y. cap_24 (Some x) = Some y \<and> y \<le> 24 \<and> (x = 1 \<longrightarrow> y = 1)"
  by (simp add: cap_24_def gt_cell_def)

lemma cap_fill_hours: "\<exists>y. cap_24 (fillna 1 (total_hours d)) = Some y \<and> y \<le> 24 \<and> (d = None \<longrightarrow> y = 1)"
proof (cases d)
  case None
  then show ?thesis by (simp add: cap_24_def gt_cell_def fillna_def total_hours_def)
next
  case (Some n)
  obtain x where x: "fillna 1 (total_hours d) = Some x"
    by (cases "total_hours d") (simp_all add: fillna_def)
  from cap_24_Some [of x] obtain y where "cap_24 (Some x) = Some y" "y \<le> 24" by auto
  with x Some show ?thesis by simp
qed

lemma cap_durations_assign:
  "cap_durations (assign_durations df ds) = assign_durations df (map cap_24 ds)"
  by (simp add: cap_durations_def assign_durations_def zip_map2 case_prod_unfold comp_def)

text \<open>The paths of the body of the \<open>try\<close>.\<close>

lemma calculate_duration_try_No_column:
  "timestamp_dtype df = No_column \<Longrightarrow>
     calculate_duration_try df = Inr (assign_durations df (replicate (length (rows df)) (Some 1)))"
  by (simp add: calculate_duration_try_def cap_durations_assign cap_24_def gt_cell_def)

lemma calculate_duration_try_Other_dtype:
  "timestamp_dtype df = Other_dtype \<Longrightarrow>
     calculate_duration_try df = Inl (AttributeError ''Can only use .dt accessor with datetimelike values'',
        df\<lparr>rows := sort_values_imo_timestamp (rows df)\<rparr>)"
  by (simp add: calculate_duration_try_def Let_def)

lemma calculate_duration_try_overflow:
  "timestamp_dtype df = Datetime64 \<Longrightarrow>
   groupby_diff Map.empty (sort_values_imo_timestamp (rows df)) = Inl e \<Longrightarrow>
     calculate_duration_try df = Inl (e, df\<lparr>rows := sort_values_imo_timestamp (rows df)\<rparr>)"
  by (simp add: calculate_duration_try_def Let_def)

lemma calculate_duration_try_Datetime64:
  "timestamp_dtype df = Datetime64 \<Longrightarrow>
   groupby_diff Map.empty (sort_values_imo_timestamp (rows df)) = Inr deltas \<Longrightarrow>
     calculate_duration_try df = Inr (assign_durations (df\<lparr>rows := sort_values_imo_timestamp (rows df)\<rparr>)
        (map (\<lambda>d. cap_24 (fillna 1 (total_hours d))) deltas))"
  by (simp add: calculate_duration_try_def cap_durations_assign Let_def comp_def)

lemma calculate_duration_try_Inl:
  assumes "calculate_duration_try df = Inl (e, df1)"
  shows "timestamp_dtype df \<noteq> No_column" and "df1 = df\<lparr>rows := sort_values_imo_timestamp (rows df)\<rparr>"
  using assms
  by (auto simp: calculate_duration_try_def Let_def split: if_splits sum.splits)

lemma calculate_duration_handler:
  "calculate_duration_try df = Inl (e, df1) \<Longrightarrow>
     calculate_duration df = Inr (assign_durations df1 (replicate (length (rows df1)) (Some 1)))"
  by (simp add: calculate_duration_def)

lemma calculate_duration_no_error:
  "calculate_duration_try df = Inr out \<Longrightarrow> calculate_duration df = Inr out"
  by (simp add: calculate_duration_def)

text \<open>The table that the duration column is assigned to: sorted when the column exists.\<close>

lemma calculate_duration_shape:
  "\<exists>out ds. calculate_duration df = Inr out
     \<and> timestamp_dtype out = timestamp_dtype df
     \<and> length ds = length (rows df)
     \<and> rows out = map (\<lambda>(r, d). with_duration r d)
          (zip (if timestamp_dtype df = No_column then rows df else sort_values_imo_timestamp (rows df)) ds)
     \<and> (timestamp_dtype df = No_column \<or> (\<exists>e. calculate_duration_try df = Inl e)
           \<longrightarrow> ds = replicate (length (rows df)) (Some 1))
     \<and> (\<forall>deltas. timestamp_dtype df = Datetime64
           \<and> groupby_diff Map.empty (sort_values_imo_timestamp (rows df)) = Inr deltas
           \<longrightarrow> ds = map (\<lambda>d. cap_24 (fillna 1 (total_hours d))) deltas)"
proof (cases "calculate_duration_try df")
  case (Inl p)
  obtain e df1 where p: "p = (e, df1)" by (cases p)
  note failed = Inl [unfolded p]
  note t = calculate_duration_try_Inl [OF failed]
  have no_diffs: "\<not> (timestamp_dtype df = Datetime64
      \<and> groupby_diff Map.empty (sort_values_imo_timestamp (rows df)) = Inr deltas)" for deltas
    using failed calculate_duration_try_Datetime64 [of df deltas] by auto
  show ?thesis
    apply (rule exI [of _ "assign_durations df1 (replicate (length (rows df1)) (Some 1))"])
    apply (rule exI [of _ "replicate (length (rows df)) (Some 1)"])
    using calculate_duration_handler [OF failed] t no_diffs
    apply (auto simp: assign_durations_def sort_values_imo_timestamp_def)
    done
next
  case (Inr out)
  note ok = calculate_duration_no_error [OF Inr]
  show ?thesis
  proof (cases "timestamp_dtype df")
    case No_column
    with Inr ok show ?thesis
      by (auto simp: calculate_duration_try_No_column assign_durations_def)
  next
    case Other_dtype
    with Inr calculate_duration_try_Other_dtype [of df] show ?thesis by simp
  next
    case Datetime64
    show ?thesis
    proof (cases "groupby_diff Map.empty (sort_values_imo_timestamp (rows df))")
      case (Inl e)
      with Inr calculate_duration_try_overflow [OF Datetime64 Inl] show ?thesis by simp
    next
      case deltas: (Inr deltas)
      from groupby_diff_length [OF deltas] have len: "length deltas = length (rows df)"
        by (simp add: sort_values_imo_timestamp_def)
      from calculate_duration_try_Datetime64 [OF Datetime64 deltas] Inr ok
      have out: "calculate_duration df = Inr (assign_durations (df\<lparr>rows := sort_values_imo_timestamp (rows df)\<rparr>)
        (map (\<lambda>d. cap_24 (fillna 1 (total_hours d))) deltas))" by simp
      show ?thesis
        apply (rule exI [of _ "assign_durations (df\<lparr>rows := sort_values_imo_timestamp (rows df)\<rparr>)
          (map (\<lambda>d. cap_24 (fillna 1 (total_hours d))) deltas)"])
        apply (rule exI [of _ "map (\<lambda>d. cap_24 (fillna 1 (total_hours d))) deltas"])
        using out len Datetime64 deltas Inr
        apply (simp add: assign_durations_def)
        done
    qed
  qed
qed

lemma calculate_duration_try_Inr:
  assumes "\<not> (timestamp_dtype df = No_column \<or> (\<exists>e. calculate_duration_try df = Inl e))"
  shows "timestamp_dtype df = Datetime64
     \<and> (\<exists>deltas. groupby_diff Map.empty (sort_values_imo_timestamp (rows df)) = Inr deltas)"
proof (cases "timestamp_dtype df")
  case No_column
  with assms show ?thesis by simp
next
  case Other_dtype
  with assms calculate_duration_try_Other_dtype [of df] show ?thesis by simp
next
  case Datetime64
  show ?thesis
  proof (cases "groupby_diff Map.empty (sort_values_imo_timestamp (rows df))")
    case (Inl e)
    with assms calculate_duration_try_overflow [OF Datetime64 Inl] show ?thesis by simp
  next
    case (Inr deltas)
    with Datetime64 show ?thesis by simp
  qed
qed

section \<open>Facts about the pipeline of Job B\<close>

lemma calculate_duration_rows:
  assumes "calculate_duration df = Inr out"
  defines "rs \<equiv> (if timestamp_dtype df = No_column then rows df else sort_values_imo_timestamp (rows df))"
  shows "length (rows out) = length (rows df)"
    and "i < length (rows df) \<Longrightarrow>
      \<exists>x. rows out ! i = with_duration (rs ! i) (Some x) \<and> x \<le> 24
        \<and> ((timestamp_dtype df = No_column \<or> (\<exists>e. calculate_duration_try df = Inl e))
             \<or> timestamp (rs ! i) = None
             \<or> (\<forall>k<i. imo (rs ! k) \<noteq> imo (rs ! i)) \<longrightarrow> x = 1)"
proof -
  from calculate_duration_shape [of df] assms(1) obtain ds where
    len: "length ds = length (rows df)"
    and out: "rows out = map (\<lambda>(r, d). with_duration r d) (zip rs ds)"
    and ones: "timestamp_dtype df = No_column \<or> (\<exists>e. calculate_duration_try df = Inl e)
        \<Longrightarrow> ds = replicate (length (rows df)) (Some 1)"
    and dt: "\<And>deltas. timestamp_dtype df = Datetime64
        \<Longrightarrow> groupby_diff Map.empty (sort_values_imo_timestamp (rows df)) = Inr deltas
        \<Longrightarrow> ds = map (\<lambda>d. cap_24 (fillna 1 (total_hours d))) deltas"
    unfolding rs_def by auto
  have lrs: "length rs = length (rows df)"
    by (simp add: rs_def sort_values_imo_timestamp_def)
  show "length (rows out) = length (rows df)"
    using out len lrs by simp
  show "\<exists>x. rows out ! i = with_duration (rs ! i) (Some x) \<and> x \<le> 24
        \<and> ((timestamp_dtype df = No_column \<or> (\<exists>e. calculate_duration_try df = Inl e))
             \<or> timestamp (rs ! i) = None
             \<or> (\<forall>k<i. imo (rs ! k) \<noteq> imo (rs ! i)) \<longrightarrow> x = 1)" if i: "i < length (rows df)"
  proof -
    have nth: "rows out ! i = with_duration (rs ! i) (ds ! i)"
      using out len lrs i by simp
    show ?thesis
    proof (cases "timestamp_dtype df = No_column \<or> (\<exists>e. calculate_duration_try df = Inl e)")
      case True
      with ones i have "ds ! i = Some 1" by simp
      with nth show ?thesis by (intro exI [of _ 1]) simp
    next
      case False
      from calculate_duration_try_Inr [OF False] obtain deltas where
        d64: "timestamp_dtype df = Datetime64"
        and deltas: "groupby_diff Map.empty (sort_values_imo_timestamp (rows df)) = Inr deltas"
        by (elim exE conjE)
      from d64 have rs: "rs = sort_values_imo_timestamp (rows df)" by (simp add: rs_def)
      from deltas rs have g: "groupby_diff Map.empty rs = Inr deltas" by simp
      let ?g = "deltas ! i"
      have ld: "length deltas = length rs" by (rule groupby_diff_length [OF g])
      from dt [OF d64 deltas] i lrs ld have dsi: "ds ! i = cap_24 (fillna 1 (total_hours ?g))" by simp
      obtain y where
        y: "cap_24 (fillna 1 (total_hours ?g)) = Some y" "y \<le> 24" "?g = None \<longrightarrow> y = 1"
        using cap_fill_hours [of ?g] by auto
      have i': "i < length rs" using i lrs by simp
      have "?g = None" if "timestamp (rs ! i) = None"
        by (rule groupby_diff_NaT [OF g i' that])
      moreover have "?g = None" if "\<forall>k<i. imo (rs ! k) \<noteq> imo (rs ! i)"
        by (rule groupby_diff_first [OF g i' _ that]) simp
      ultimately have "timestamp (rs ! i) = None \<or> (\<forall>k<i. imo (rs ! k) \<noteq> imo (rs ! i)) \<longrightarrow> y = 1"
        using y(3) by blast
      with nth dsi y(1,2) False show ?thesis by (intro exI [of _ y]) simp
    qed
  qed
qed

lemma merge_cells_nonempty: "merge_cells tbl k \<noteq> []"
  by (simp add: merge_cells_def Let_def)

lemma merge_emission_factors_rows:
  "m \<in> set (merge_emission_factors rs aux boil) \<Longrightarrow>
     \<exists>r\<in>set rs. \<exists>a b. m = with_factors r (fillna 0 a) (fillna 0 b)"
  by (auto simp: merge_emission_factors_def)

lemma merge_emission_factors_covers:
  assumes "r \<in> set rs"
  shows "\<exists>m\<in>set (merge_emission_factors rs aux boil). imo m = imo r"
proof -
  obtain a where a: "a \<in> set (merge_cells aux (fuel_category r))"
    using merge_cells_nonempty [of aux "fuel_category r"] by (cases "merge_cells aux (fuel_category r)") auto
  obtain b where b: "b \<in> set (merge_cells boil (fuel_category r))"
    using merge_cells_nonempty [of boil "fuel_category r"] by (cases "merge_cells boil (fuel_category r)") auto
  have "with_factors r (fillna 0 a) (fillna 0 b) \<in> set (merge_emission_factors rs aux boil)"
    using assms a b by (auto simp: merge_emission_factors_def)
  then show ?thesis by (intro bexI [where x = "with_factors r (fillna 0 a) (fillna 0 b)"]) simp_all
qed

lemma preprocess_data_No_column:
  "timestamp_dtype df = No_column \<Longrightarrow> preprocess_data df = Inl (KeyError ''timestamp'')"
  by (simp add: preprocess_data_def)

lemma preprocess_data_Inr:
  assumes "timestamp_dtype df \<noteq> No_column"
  shows "\<exists>out. calculate_duration (df\<lparr>rows := map fill_loads (rows df)\<rparr>) = Inr out
           \<and> preprocess_data df = Inr (out, unique (map imo (rows df)))"
proof -
  let ?df = "df\<lparr>rows := map fill_loads (rows df)\<rparr>"
  from calculate_duration_shape [of ?df] obtain out where "calculate_duration ?df = Inr out" by blast
  with assms show ?thesis by (simp add: preprocess_data_def Let_def)
qed

lemma main_emissions_data_Inr:
  assumes "main_emissions_data df aux boil = Inr (ed, imos)"
  shows "\<exists>out. timestamp_dtype df \<noteq> No_column
     \<and> calculate_duration (df\<lparr>rows := map fill_loads (rows df)\<rparr>) = Inr out
     \<and> imos = unique (map imo (rows df))
     \<and> ed = map calculate_emissions_after_jit_row (merge_emission_factors (rows out) aux boil)"
proof (cases "timestamp_dtype df = No_column")
  case True
  with assms show ?thesis by (simp add: main_emissions_data_def preprocess_data_No_column)
next
  case False
  from preprocess_data_Inr [OF False] obtain out where
    "calculate_duration (df\<lparr>rows := map fill_loads (rows df)\<rparr>) = Inr out"
    "preprocess_data df = Inr (out, unique (map imo (rows df)))" by blast
  with assms False show ?thesis
    by (auto simp: main_emissions_data_def calculate_emissions_after_jit_def Let_def)
qed

lemma main_emissions_data_total:
  "timestamp_dtype df \<noteq> No_column \<Longrightarrow> \<exists>ed imos. main_emissions_data df aux boil = Inr (ed, imos)"
  using preprocess_data_Inr [of df] by (auto simp: main_emissions_data_def Let_def)

lemma fill_loads_sel [simp]:
  "imo (fill_loads r) = imo r"
  "timestamp (fill_loads r) = timestamp r"
  "ael (fill_loads r) = fillna 0 (ael r)"
  "abl (fill_loads r) = fillna 0 (abl r)"
  "fuel_category (fill_loads r) = fuel_category r"
  by (simp_all add: fill_loads_def)

lemma fillna_Some: "\<exists>x. fillna v a = Some x"
  by (cases a) (simp_all add: fillna_def)

lemma set_sort_values [simp]: "set (sort_values_imo_timestamp rs) = set rs"
  by (simp add: sort_values_imo_timestamp_def)

lemma length_sort_values [simp]: "length (sort_values_imo_timestamp rs) = length rs"
  by (simp add: sort_values_imo_timestamp_def)

lemma processed_rows:
  assumes "calculate_duration (df\<lparr>rows := map fill_loads (rows df)\<rparr>) = Inr out"
    and "r \<in> set (rows out)"
  shows "\<exists>r0\<in>set (rows df). \<exists>x. r = with_duration (fill_loads r0) (Some x) \<and> x \<le> 24
           \<and> (timestamp r0 = None \<longrightarrow> x = 1)
           \<and> ((\<exists>e. calculate_duration_try (df\<lparr>rows := map fill_loads (rows df)\<rparr>) = Inl e) \<longrightarrow> x = 1)"
proof -
  let ?df = "df\<lparr>rows := map fill_loads (rows df)\<rparr>"
  let ?rs = "if timestamp_dtype ?df = No_column then rows ?df else sort_values_imo_timestamp (rows ?df)"
  have len: "length (rows out) = length (rows ?df)"
    by (rule calculate_duration_rows(1) [OF assms(1)])
  from assms(2) obtain i where i: "i < length (rows out)" "rows out ! i = r"
    by (auto simp: in_set_conv_nth)
  from i(1) len have i': "i < length (rows ?df)" by simp
  from calculate_duration_rows(2) [OF assms(1) i'] obtain x where
    x: "rows out ! i = with_duration (?rs ! i) (Some x)" "x \<le> 24"
       "(timestamp_dtype ?df = No_column \<or> (\<exists>e. calculate_duration_try ?df = Inl e))
          \<or> timestamp (?rs ! i) = None
          \<or> (\<forall>k<i. imo (?rs ! k) \<noteq> imo (?rs ! i)) \<longrightarrow> x = 1"
    by (elim exE conjE)
  have "?rs ! i \<in> set ?rs" using i' by (intro nth_mem) simp
  then have "?rs ! i \<in> set (rows ?df)" by (simp split: if_splits)
  then obtain r0 where r0: "r0 \<in> set (rows df)" "?rs ! i = fill_loads r0" by auto
  from x(3) r0(2) have "timestamp r0 = None \<longrightarrow> x = 1"
    "(\<exists>e. calculate_duration_try ?df = Inl e) \<longrightarrow> x = 1"
    by auto
  with r0 x(1,2) i(2) show ?thesis by (intro bexI [of _ r0] exI [of _ x]) simp_all
qed

lemma truncate_with_duration: "ais_row.truncate \<circ> (\<lambda>(r, d). with_duration r d) = fst"
  by (rule ext) (simp add: case_prod_unfold)

lemma calculate_duration_truncate:
  assumes "calculate_duration df = Inr out"
  shows "map ais_row.truncate (rows out) =
           (if timestamp_dtype df = No_column then rows df else sort_values_imo_timestamp (rows df))"
proof -
  from calculate_duration_shape [of df] assms obtain ds where
    ds: "length ds = length (rows df)"
      "rows out = map (\<lambda>(r, d). with_duration r d)
          (zip (if timestamp_dtype df = No_column then rows df else sort_values_imo_timestamp (rows df)) ds)"
    by auto
  show ?thesis
    unfolding ds(2) map_map truncate_with_duration using ds(1) by simp
qed

lemma imo_truncate [simp]: "imo (ais_row.truncate r) = imo r"
  by (simp add: ais_row.defs)

lemma calculate_duration_imos:
  assumes "calculate_duration df = Inr out"
  shows "imo ` set (rows out) = imo ` set (rows df)"
proof -
  have "imo ` set (rows out) = imo ` set (map ais_row.truncate (rows out))"
    by (simp add: image_image)
  also have "\<dots> = imo ` set (rows df)"
    unfolding calculate_duration_truncate [OF assms] by simp
  finally show ?thesis .
qed

lemma merge_emission_factors_imos:
  "imo ` set (merge_emission_factors rs aux boil) = imo ` set rs"
proof (intro equalityI subsetI)
  fix i assume "i \<in> imo ` set (merge_emission_factors rs aux boil)"
  then obtain m where "m \<in> set (merge_emission_factors rs aux boil)" "i = imo m" by auto
  with merge_emission_factors_rows [of m rs aux boil] show "i \<in> imo ` set rs" by auto
next
  fix i assume "i \<in> imo ` set rs"
  then obtain r where "r \<in> set rs" "i = imo r" by auto
  with merge_emission_factors_covers [of r rs aux boil]
  show "i \<in> imo ` set (merge_emission_factors rs aux boil)" by force
qed

lemma main_emissions_data_imos:
  assumes "main_emissions_data df aux boil = Inr (ed, imos)"
  shows "imo ` set ed = imo ` set (rows df)" and "imos = unique (map imo (rows df))"
proof -
  from main_emissions_data_Inr [OF assms] obtain out where
    out: "calculate_duration (df\<lparr>rows := map fill_loads (rows df)\<rparr>) = Inr out"
      "imos = unique (map imo (rows df))"
      "ed = map calculate_emissions_after_jit_row (merge_emission_factors (rows out) aux boil)"
    by blast
  have "imo ` set ed = imo ` set (merge_emission_factors (rows out) aux boil)"
    unfolding out(3) by (simp add: image_image calculate_emissions_after_jit_row_sel)
  also have "\<dots> = imo ` set (rows out)" by (rule merge_emission_factors_imos)
  also have "\<dots> = imo ` set (rows df)"
    using calculate_duration_imos [OF out(1)] by (simp add: image_image)
  finally show "imo ` set ed = imo ` set (rows df)" .
  show "imos = unique (map imo (rows df))" by (rule out(2))
qed

text \<open>Every row of \<open>emissions_data\<close>.\<close>

lemma emissions_data_rows:
  assumes "main_emissions_data df aux boil = Inr (ed, imos)" and "r \<in> set ed"
  shows "\<exists>r0\<in>set (rows df). \<exists>x a b. x \<le> 24
     \<and> (timestamp r0 = None \<longrightarrow> x = 1)
     \<and> ((\<exists>e. calculate_duration_try (df\<lparr>rows := map fill_loads (rows df)\<rparr>) = Inl e) \<longrightarrow> x = 1)
     \<and> r = calculate_emissions_after_jit_row
             (with_factors (with_duration (fill_loads r0) (Some x)) (fillna 0 a) (fillna 0 b))"
proof -
  from main_emissions_data_Inr [OF assms(1)] obtain out where
    out: "calculate_duration (df\<lparr>rows := map fill_loads (rows df)\<rparr>) = Inr out"
      "ed = map calculate_emissions_after_jit_row (merge_emission_factors (rows out) aux boil)"
    by blast
  from assms(2) out(2) obtain m where
    m: "m \<in> set (merge_emission_factors (rows out) aux boil)" "r = calculate_emissions_after_jit_row m"
    by auto
  from merge_emission_factors_rows [OF m(1)] obtain p a b where
    p: "p \<in> set (rows out)" "m = with_factors p (fillna 0 a) (fillna 0 b)" by blast
  from processed_rows [OF out(1) p(1)] obtain r0 x where
    r0: "r0 \<in> set (rows df)" "p = with_duration (fill_loads r0) (Some x)" "x \<le> 24"
      "timestamp r0 = None \<longrightarrow> x = 1"
      "(\<exists>e. calculate_duration_try (df\<lparr>rows := map fill_loads (rows df)\<rparr>) = Inl e) \<longrightarrow> x = 1"
    by (elim bexE exE conjE)
  show ?thesis
    using r0 p(2) m(2) by (intro bexI [of _ r0] exI [of _ x] exI [of _ a] exI [of _ b]) simp_all
qed

lemma jit_duration_le_3:
  "activity_duration_hours m = Some d \<Longrightarrow>
     \<exists>j. jit_activity_duration_hours (calculate_emissions_after_jit_row m) = Some j \<and> j \<le> 3 \<and> (d = 1 \<longrightarrow> j = 1)"
  by (simp add: calculate_emissions_after_jit_row_sel clip_upper_def)

lemma calculate_duration_bounds:
  "\<exists>out. calculate_duration df = Inr out \<and> length (rows out) = length (rows df)
     \<and> (\<forall>i<length (rows out). \<exists>d. activity_duration_hours (rows out ! i) = Some d \<and> d \<le> 24
           \<and> (timestamp_dtype df = No_column \<or> (\<exists>e. calculate_duration_try df = Inl e)
                \<or> timestamp (rows out ! i) = None
                \<or> (\<forall>k<i. imo (rows out ! k) \<noteq> imo (rows out ! i)) \<longrightarrow> d = 1))"
proof -
  from calculate_duration_shape [of df] obtain out where out: "calculate_duration df = Inr out" by blast
  let ?rs = "if timestamp_dtype df = No_column then rows df else sort_values_imo_timestamp (rows df)"
  note len = calculate_duration_rows(1) [OF out]
  have "\<exists>d. activity_duration_hours (rows out ! i) = Some d \<and> d \<le> 24
           \<and> (timestamp_dtype df = No_column \<or> (\<exists>e. calculate_duration_try df = Inl e)
                \<or> timestamp (rows out ! i) = None
                \<or> (\<forall>k<i. imo (rows out ! k) \<noteq> imo (rows out ! i)) \<longrightarrow> d = 1)"
    if i: "i < length (rows out)" for i
  proof -
    from i len have i': "i < length (rows df)" by simp
    from calculate_duration_rows(2) [OF out i'] obtain x where
      x: "rows out ! i = with_duration (?rs ! i) (Some x)" "x \<le> 24"
         "(timestamp_dtype df = No_column \<or> (\<exists>e. calculate_duration_try df = Inl e))
            \<or> timestamp (?rs ! i) = None
            \<or> (\<forall>k<i. imo (?rs ! k) \<noteq> imo (?rs ! i)) \<longrightarrow> x = 1"
      by (elim exE conjE)
    have imos: "imo (rows out ! k) = imo (?rs ! k)" if "k \<le> i" for k
    proof -
      from that i' have "k < length (rows df)" by simp
      from calculate_duration_rows(2) [OF out this] obtain y where
        "rows out ! k = with_duration (?rs ! k) (Some y)" by (elim exE conjE)
      then show ?thesis by simp
    qed
    have first: "\<forall>k<i. imo (?rs ! k) \<noteq> imo (?rs ! i)" if h: "\<forall>k<i. imo (rows out ! k) \<noteq> imo (rows out ! i)"
    proof (intro allI impI)
      fix k assume k: "k < i"
      with h have "imo (rows out ! k) \<noteq> imo (rows out ! i)" by simp
      moreover have "imo (rows out ! k) = imo (?rs ! k)" using imos [of k] k by simp
      moreover have "imo (rows out ! i) = imo (?rs ! i)" using imos [of i] by simp
      ultimately show "imo (?rs ! k) \<noteq> imo (?rs ! i)" by simp
    qed
    have ts: "timestamp (rows out ! i) = timestamp (?rs ! i)" using x(1) by simp
    have "x = 1" if h: "timestamp_dtype df = No_column \<or> (\<exists>e. calculate_duration_try df = Inl e)
                \<or> timestamp (rows out ! i) = None
                \<or> (\<forall>k<i. imo (rows out ! k) \<noteq> imo (rows out ! i))"
    proof -
      from h consider
        (a) "timestamp_dtype df = No_column \<or> (\<exists>e. calculate_duration_try df = Inl e)"
        | (b) "timestamp (rows out ! i) = None"
        | (c) "\<forall>k<i. imo (rows out ! k) \<noteq> imo (rows out ! i)" by (elim disjE) simp_all
      then show ?thesis
      proof cases
        case a
        with x(3) show ?thesis by auto
      next
        case b
        with ts x(3) show ?thesis by simp
      next
        case c
        from first [OF c] x(3) show ?thesis by simp
      qed
    qed
    then have imp: "timestamp_dtype df = No_column \<or> (\<exists>e. calculate_duration_try df = Inl e)
                \<or> timestamp (rows out ! i) = None
                \<or> (\<forall>k<i. imo (rows out ! k) \<noteq> imo (rows out ! i)) \<longrightarrow> x = 1" by (rule impI)
    have d: "activity_duration_hours (rows out ! i) = Some x" using x(1) by simp
    show ?thesis
      by (rule exI [of _ x]) (intro conjI d x(2) imp)
  qed
  then have all: "\<forall>i<length (rows out). \<exists>d. activity_duration_hours (rows out ! i) = Some d \<and> d \<le> 24
           \<and> (timestamp_dtype df = No_column \<or> (\<exists>e. calculate_duration_try df = Inl e)
                \<or> timestamp (rows out ! i) = None
                \<or> (\<forall>k<i. imo (rows out ! k) \<noteq> imo (rows out ! i)) \<longrightarrow> d = 1)"
    by (intro allI impI)
  show ?thesis
    by (rule exI [of _ out]) (intro conjI out len all)
qed

lemma mset_sort_values [simp]: "mset (sort_values_imo_timestamp rs) = mset rs"
  by (simp add: sort_values_imo_timestamp_def)

lemma assign_ones_durations:
  "r \<in> set (rows (assign_durations df (replicate n (Some 1)))) \<Longrightarrow> activity_duration_hours r = Some 1"
  by (auto simp: assign_durations_def dest!: set_zip_rightD)

lemma main_of_emissions_data:
  "main_emissions_data df aux boil = Inr (ed, imos) \<Longrightarrow>
     main df aux boil = Inr (aggregate_and_analyze_emissions ed imos)"
  by (simp add: main_def)

section \<open>The sample run of Job B\<close>

lemma sample_sorted:
  "sort_values_imo_timestamp (map fill_loads (rows sample_ais)) =
    [\<lparr>imo = ''IMO1'', timestamp = Some 0, ael = Some 10, abl = Some 0, fuel_category = Some ''HFO''\<rparr>,
     \<lparr>imo = ''IMO1'', timestamp = Some 18000000000000, ael = Some 10, abl = Some 4, fuel_category = Some ''HFO''\<rparr>,
     \<lparr>imo = ''IMO1'', timestamp = None, ael = Some 6, abl = Some 2, fuel_category = Some ''HFO''\<rparr>]"
  by (simp add: sort_values_imo_timestamp_def sample_ais_def fill_loads_def fillna_def ts_key_def)

lemma sample_groupby_diff:
  "groupby_diff Map.empty (sort_values_imo_timestamp (map fill_loads (rows sample_ais)))
     = Inr [None, Some 18000000000000, None]"
  by (simp add: sample_sorted ts_minus_def)

lemma sample_calculate_duration:
  "calculate_duration (sample_ais\<lparr>rows := map fill_loads (rows sample_ais)\<rparr>) = Inr sample_processed"
proof -
  let ?df = "sample_ais\<lparr>rows := map fill_loads (rows sample_ais)\<rparr>"
  have dt: "timestamp_dtype ?df = Datetime64"
    by (simp add: sample_ais_def)
  have g: "groupby_diff Map.empty (sort_values_imo_timestamp (rows ?df)) = Inr [None, Some 18000000000000, None]"
    using sample_groupby_diff by simp
  have "calculate_duration_try ?df = Inr sample_processed"
    unfolding calculate_duration_try_Datetime64 [OF dt g]
    by (simp add: sample_sorted assign_durations_def)
      (simp add: sample_ais_def sample_processed_def with_duration_def ais_row.defs dur_row.defs
        total_hours_def cap_24_def gt_cell_def fillna_def)
  then show ?thesis by (rule calculate_duration_no_error)
qed

lemma sample_preprocess_data: "preprocess_data sample_ais = Inr (sample_processed, [''IMO1''])"
  by (simp add: preprocess_data_def Let_def sample_calculate_duration)
    (simp add: sample_ais_def unique_def)

lemma sample_main_emissions_data:
  "main_emissions_data sample_ais sample_aux_factors sample_boiler_factors
     = Inr (map calculate_emissions_after_jit_row sample_merged, [''IMO1''])"
  by (simp add: main_emissions_data_def sample_preprocess_data calculate_emissions_after_jit_def)
    (simp add: merge_emission_factors_def sample_aux_factors_def sample_processed_def
      sample_boiler_factors_def merge_cells_def fillna_def sample_merged_def with_factors_def
      dur_row.defs merged_row.defs)

lemma sample_other_try:
  "calculate_duration_try sample_ais_other =
     Inl (AttributeError ''Can only use .dt accessor with datetimelike values'',
          sample_ais_other\<lparr>rows := sort_values_imo_timestamp (rows sample_ais_other)\<rparr>)"
  by (rule calculate_duration_try_Other_dtype) (simp add: sample_ais_other_def)

lemma sample_overflow_sorted:
  "sort_values_imo_timestamp (map fill_loads (rows sample_ais_overflow)) =
    [\<lparr>imo = ''IMO1'', timestamp = Some (- 9000000000000000000), ael = Some 10, abl = Some 4,
        fuel_category = Some ''HFO''\<rparr>,
     \<lparr>imo = ''IMO1'', timestamp = Some 9000000000000000000, ael = Some 10, abl = Some 4,
        fuel_category = Some ''HFO''\<rparr>]"
  by (simp add: sort_values_imo_timestamp_def sample_ais_overflow_def fill_loads_def fillna_def ts_key_def)

lemma sample_overflow_try:
  "calculate_duration_try (sample_ais_overflow\<lparr>rows := map fill_loads (rows sample_ais_overflow)\<rparr>) =
     Inl (OverflowError ''Overflow in int64 addition'',
          sample_ais_overflow\<lparr>rows := sort_values_imo_timestamp (map fill_loads (rows sample_ais_overflow))\<rparr>)"
proof -
  let ?df = "sample_ais_overflow\<lparr>rows := map fill_loads (rows sample_ais_overflow)\<rparr>"
  have dt: "timestamp_dtype ?df = Datetime64"
    by (simp add: sample_ais_overflow_def)
  have g: "groupby_diff Map.empty (sort_values_imo_timestamp (rows ?df))
      = Inl (OverflowError ''Overflow in int64 addition'')"
    by (simp add: sample_overflow_sorted ts_minus_def)
  from calculate_duration_try_overflow [OF dt g] show ?thesis by simp
qed

section \<open>Facts about the merges\<close>

lemma fillna_cell_or_0: "fillna 0 a = Some (cell_or_0 a)"
  by (cases a) (simp_all add: fillna_def cell_or_0_def)

lemma merge_cells_absent: "k \<notin> fst ` set tbl \<Longrightarrow> merge_cells tbl k = [None]"
proof -
  assume "k \<notin> fst ` set tbl"
  then have "filter (\<lambda>p. fst p = k) tbl = []" by (auto simp: filter_empty_conv)
  then show ?thesis by (simp add: merge_cells_def)
qed

lemma merge_cells_present:
  "k \<in> fst ` set tbl \<Longrightarrow> set (merge_cells tbl k) = {v. (k, v) \<in> set tbl}"
proof -
  assume k: "k \<in> fst ` set tbl"
  then have "filter (\<lambda>p. fst p = k) tbl \<noteq> []" by (auto simp: filter_empty_conv)
  then have "merge_cells tbl k = map snd (filter (\<lambda>p. fst p = k) tbl)"
    by (simp add: merge_cells_def)
  then show ?thesis by force
qed

lemma filter_key_distinct:
  "distinct (map fst tbl) \<Longrightarrow> length (filter (\<lambda>p. fst p = k) tbl) \<le> 1"
proof (induction tbl)
  case Nil
  then show ?case by simp
next
  case (Cons p tbl)
  show ?case
  proof (cases "fst p = k")
    case True
    with Cons.prems have "k \<notin> fst ` set tbl" by simp
    then have "filter (\<lambda>p. fst p = k) tbl = []" by (auto simp: filter_empty_conv)
    with True show ?thesis by simp
  next
    case False
    with Cons show ?thesis by simp
  qed
qed

lemma merge_cells_length_1:
  assumes "distinct (map fst tbl)"
  shows "length (merge_cells tbl k) = 1"
proof (cases "filter (\<lambda>p. fst p = k) tbl = []")
  case True
  then show ?thesis by (simp add: merge_cells_def)
next
  case False
  then have "length (filter (\<lambda>p. fst p = k) tbl) \<noteq> 0" by simp
  with filter_key_distinct [OF assms, of k] have "length (filter (\<lambda>p. fst p = k) tbl) = 1" by linarith
  with False show ?thesis by (simp add: merge_cells_def)
qed

lemma merge_outer_set:
  "(i, x, y) \<in> set (merge_outer before_jit after_jit) =
     (((i, x) \<in> set before_jit \<and> y \<in> set (merge_cells after_jit i))
      \<or> (x = None \<and> (i, y) \<in> set after_jit \<and> i \<notin> fst ` set before_jit))"
proof -
  have l: "(i, x, y) \<in> set (concat (map (\<lambda>(i, b). map (\<lambda>a. (i, b, a)) (merge_cells after_jit i)) before_jit))
      = ((i, x) \<in> set before_jit \<and> y \<in> set (merge_cells after_jit i))"
    by auto
  have r: "(i, x, y) \<in> set (map (\<lambda>(i, a). (i, None, a)) (filter (\<lambda>p. fst p \<notin> fst ` set before_jit) after_jit))
      = (x = None \<and> (i, y) \<in> set after_jit \<and> i \<notin> fst ` set before_jit)"
  proof
    assume "(i, x, y) \<in> set (map (\<lambda>(i, a). (i, None, a)) (filter (\<lambda>p. fst p \<notin> fst ` set before_jit) after_jit))"
    then obtain p where p: "p \<in> set after_jit" "fst p \<notin> fst ` set before_jit"
      "(i, x, y) = (case p of (i, a) \<Rightarrow> (i, None, a))" by auto
    moreover obtain j a where "p = (j, a)" by (cases p)
    ultimately show "x = None \<and> (i, y) \<in> set after_jit \<and> i \<notin> fst ` set before_jit"
      by simp
  next
    assume a: "x = None \<and> (i, y) \<in> set after_jit \<and> i \<notin> fst ` set before_jit"
    then have "(i, y) \<in> set (filter (\<lambda>p. fst p \<notin> fst ` set before_jit) after_jit)" by simp
    then have "(case (i, y) of (i, a) \<Rightarrow> (i, None :: num, a))
        \<in> (\<lambda>(i, a). (i, None, a)) ` set (filter (\<lambda>p. fst p \<notin> fst ` set before_jit) after_jit)"
      by (rule imageI)
    with a show "(i, x, y) \<in> set (map (\<lambda>(i, a). (i, None, a)) (filter (\<lambda>p. fst p \<notin> fst ` set before_jit) after_jit))"
      by simp
  qed
  show ?thesis
    by (simp only: merge_outer_def set_append Un_iff l r)
qed

lemma merge_outer_keys:
  "fst ` set (merge_outer before_jit after_jit) = fst ` set before_jit \<union> fst ` set after_jit"
proof (intro equalityI subsetI)
  fix i assume "i \<in> fst ` set (merge_outer before_jit after_jit)"
  then obtain x y where "(i, x, y) \<in> set (merge_outer before_jit after_jit)" by auto
  then show "i \<in> fst ` set before_jit \<union> fst ` set after_jit"
    unfolding merge_outer_set by force
next
  fix i assume i: "i \<in> fst ` set before_jit \<union> fst ` set after_jit"
  show "i \<in> fst ` set (merge_outer before_jit after_jit)"
  proof (cases "i \<in> fst ` set before_jit")
    case True
    then obtain x where x: "(i, x) \<in> set before_jit" by auto
    obtain y where "y \<in> set (merge_cells after_jit i)"
      using merge_cells_nonempty [of after_jit i] by (cases "merge_cells after_jit i") auto
    with x have "(i, x, y) \<in> set (merge_outer before_jit after_jit)"
      unfolding merge_outer_set by simp
    then show ?thesis by force
  next
    case False
    with i obtain y where "(i, y) \<in> set after_jit" by auto
    with False have "(i, None, y) \<in> set (merge_outer before_jit after_jit)"
      unfolding merge_outer_set by simp
    then show ?thesis by force
  qed
qed

lemma merge_outer_keys_distinct:
  assumes "distinct (map fst before_jit)" and "distinct (map fst after_jit)"
  shows "distinct (map fst (merge_outer before_jit after_jit))"
proof -
  have one: "map (\<lambda>a. (i, b, a)) (merge_cells after_jit i) = [(i, b, hd (merge_cells after_jit i))]" for i b
    using merge_cells_length_1 [OF assms(2), of i]
    by (cases "merge_cells after_jit i") simp_all
  have left: "map fst (concat (map (\<lambda>(i, b). map (\<lambda>a. (i, b, a)) (merge_cells after_jit i)) before_jit))
      = map fst before_jit"
    by (induction before_jit) (auto simp: one)
  have snd_filter: "map fst (map (\<lambda>(i, a). (i, None, a)) xs) = map fst xs" for xs :: "(string \<times> num) list"
    by (induction xs) auto
  have right: "distinct (map fst (filter (\<lambda>p. fst p \<notin> fst ` set before_jit) after_jit))"
    using assms(2) by (simp add: distinct_map_filter)
  have "map fst (merge_outer before_jit after_jit)
      = map fst before_jit @ map fst (filter (\<lambda>p. fst p \<notin> fst ` set before_jit) after_jit)"
    by (simp only: merge_outer_def map_append left snd_filter)
  then show ?thesis using assms(1) right by force
qed

lemma calculate_emission_savings_Inr:
  "calculate_emission_savings (Some before_jit) (Some after_jit) =
     Inr (map (\<lambda>(i, b, a). \<lparr>imo = i, anc_after_jit = Some (cell_or_0 a), anc_before_jit = Some (cell_or_0 b),
                  anc_savings_after_jit = Some (cell_or_0 b - cell_or_0 a),
                  savings_range = savings_range_of (Some (cell_or_0 b - cell_or_0 a))\<rparr>)
            (sort_key fst (merge_outer before_jit after_jit)))"
  by (simp add: calculate_emission_savings_def fillna_cell_or_0 nsub_def Let_def)

lemma savings_rows:
  assumes "calculate_emission_savings (Some before_jit) (Some after_jit) = Inr merged"
  shows "r \<in> set merged =
     (\<exists>i x y. (i, x, y) \<in> set (merge_outer before_jit after_jit)
        \<and> r = \<lparr>imo = i, anc_after_jit = Some (cell_or_0 y), anc_before_jit = Some (cell_or_0 x),
                  anc_savings_after_jit = Some (cell_or_0 x - cell_or_0 y),
                  savings_range = savings_range_of (Some (cell_or_0 x - cell_or_0 y))\<rparr>)"
proof -
  from assms have m: "merged = map (\<lambda>(i, b, a). \<lparr>imo = i, anc_after_jit = Some (cell_or_0 a), anc_before_jit = Some (cell_or_0 b),
                  anc_savings_after_jit = Some (cell_or_0 b - cell_or_0 a),
                  savings_range = savings_range_of (Some (cell_or_0 b - cell_or_0 a))\<rparr>)
            (sort_key fst (merge_outer before_jit after_jit))"
    by (simp add: calculate_emission_savings_Inr)
  show ?thesis
    unfolding m by (auto simp: image_iff) force
qed

lemma savings_imos:
  assumes "calculate_emission_savings (Some before_jit) (Some after_jit) = Inr merged"
  shows "map imo merged = map fst (sort_key fst (merge_outer before_jit after_jit))"
proof -
  from assms have m: "merged = map (\<lambda>(i, b, a). \<lparr>imo = i, anc_after_jit = Some (cell_or_0 a), anc_before_jit = Some (cell_or_0 b),
                  anc_savings_after_jit = Some (cell_or_0 b - cell_or_0 a),
                  savings_range = savings_range_of (Some (cell_or_0 b - cell_or_0 a))\<rparr>)
            (sort_key fst (merge_outer before_jit after_jit))"
    by (simp add: calculate_emission_savings_Inr)
  show ?thesis
    unfolding m by (simp add: case_prod_unfold comp_def)
qed

lemma merge_cells_member:
  "y \<in> set (merge_cells tbl k) \<Longrightarrow> (k, y) \<in> set tbl \<or> k \<notin> fst ` set tbl \<and> y = None"
  using merge_cells_absent [of k tbl] merge_cells_present [of k tbl]
  by (cases "k \<in> fst ` set tbl") auto

lemma sample_savings:
  "calculate_emission_savings (Some sample_before) (Some sample_after) =
     Inr [\<lparr>imo = ''IMO1'', anc_after_jit = Some 3, anc_before_jit = Some 5,
            anc_savings_after_jit = Some 2, savings_range = Some ''1-10''\<rparr>,
          \<lparr>imo = ''IMO2'', anc_after_jit = Some 0, anc_before_jit = Some 2,
            anc_savings_after_jit = Some 2, savings_range = Some ''1-10''\<rparr>]"
  by (simp add: calculate_emission_savings_Inr sample_before_def sample_after_def merge_outer_def
      merge_cells_def cell_or_0_def savings_range_of_def cut_def savings_searchsorted)

lemma duplicate_savings:
  "calculate_emission_savings (Some duplicate_before) (Some sample_after) =
     Inr [\<lparr>imo = ''IMO1'', anc_after_jit = Some 3, anc_before_jit = Some 1,
            anc_savings_after_jit = Some (- 2), savings_range = Some ''Negative''\<rparr>,
          \<lparr>imo = ''IMO1'', anc_after_jit = Some 3, anc_before_jit = Some 2,
            anc_savings_after_jit = Some (- 1), savings_range = Some ''Negative''\<rparr>]"
  by (simp add: calculate_emission_savings_Inr duplicate_before_def sample_after_def merge_outer_def
      merge_cells_def cell_or_0_def savings_range_of_def cut_def savings_searchsorted)

lemma savings_row_cells:
  assumes run: "calculate_emission_savings (Some before_jit) (Some after_jit) = Inr merged"
    and that: "r \<in> set merged"
  shows "\<exists>x y.
           ((imo r, x) \<in> set before_jit \<or> imo r \<notin> fst ` set before_jit \<and> x = None)
         \<and> ((imo r, y) \<in> set after_jit \<or> imo r \<notin> fst ` set after_jit \<and> y = None)
         \<and> anc_before_jit r = Some (cell_or_0 x) \<and> anc_after_jit r = Some (cell_or_0 y)
         \<and> anc_savings_after_jit r = Some (cell_or_0 x - cell_or_0 y)"
proof -
  from that savings_rows [OF run, of r] obtain i x y where
    m: "(i, x, y) \<in> set (merge_outer before_jit after_jit)"
    and r: "r = \<lparr>imo = i, anc_after_jit = Some (cell_or_0 y), anc_before_jit = Some (cell_or_0 x),
                anc_savings_after_jit = Some (cell_or_0 x - cell_or_0 y),
                savings_range = savings_range_of (Some (cell_or_0 x - cell_or_0 y))\<rparr>"
    by auto
  from m have bx: "(i, x) \<in> set before_jit \<or> i \<notin> fst ` set before_jit \<and> x = None"
    unfolding merge_outer_set by auto
  from m have ay: "(i, y) \<in> set after_jit \<or> i \<notin> fst ` set after_jit \<and> y = None"
    unfolding merge_outer_set using merge_cells_member [of y after_jit i] by auto
  show ?thesis
    by (rule exI [of _ x], rule exI [of _ y]) (use bx ay r in simp)
qed

section \<open>Facts about the aggregation of Job B\<close>

lemma groupby_sum_keys: "map fst (groupby_sum data) = sort (remdups (map imo data))"
  by (simp add: groupby_sum_def comp_def)

lemma groupby_sum_distinct: "distinct (map fst (groupby_sum data))"
  by (simp add: groupby_sum_keys)

lemma groupby_sum_member:
  "(i, y) \<in> set (groupby_sum data) \<Longrightarrow>
     y = Some (sum_list (map (\<lambda>r. cell_or_0 (total_emissions_tonnes_after_jit r)) (filter (\<lambda>r. imo r = i) data)))"
  by (auto simp: groupby_sum_def)

lemma merge_cells_groupby_sum:
  "\<exists>y. merge_cells (groupby_sum data) i = [y]
     \<and> fillna 0 y = Some (sum_list (map (\<lambda>r. cell_or_0 (total_emissions_tonnes_after_jit r))
                                      (filter (\<lambda>r. imo r = i) data)))"
proof -
  from merge_cells_length_1 [OF groupby_sum_distinct, of data i]
  obtain y where y: "merge_cells (groupby_sum data) i = [y]"
    by (cases "merge_cells (groupby_sum data) i") simp_all
  then have "y \<in> set (merge_cells (groupby_sum data) i)" by simp
  from merge_cells_member [OF this]
  have "fillna 0 y = Some (sum_list (map (\<lambda>r. cell_or_0 (total_emissions_tonnes_after_jit r))
                                      (filter (\<lambda>r. imo r = i) data)))"
  proof
    assume "(i, y) \<in> set (groupby_sum data)"
    from groupby_sum_member [OF this] show ?thesis by (simp add: fillna_def)
  next
    assume a: "i \<notin> fst ` set (groupby_sum data) \<and> y = None"
    have "fst ` set (groupby_sum data) = set (map fst (groupby_sum data))" by simp
    also have "\<dots> = imo ` set data" unfolding groupby_sum_keys by simp
    finally have "i \<notin> imo ` set data" using a by simp
    then have "filter (\<lambda>r. imo r = i) data = []" by (auto simp: filter_empty_conv)
    with a show ?thesis by (simp add: fillna_def)
  qed
  with y show ?thesis by blast
qed

lemma final_emissions_eq:
  "concat (map (\<lambda>i. map (\<lambda>v. (i, fillna 0 v)) (merge_cells (groupby_sum data) i)) all_imos)
     = map (\<lambda>i. (i, Some (sum_list (map (\<lambda>r. cell_or_0 (total_emissions_tonnes_after_jit r))
                                      (filter (\<lambda>r. imo r = i) data))))) all_imos"
proof (induction all_imos)
  case Nil
  then show ?case by simp
next
  case (Cons i all_imos)
  from merge_cells_groupby_sum [of data i] obtain y where
    "merge_cells (groupby_sum data) i = [y]"
    "fillna 0 y = Some (sum_list (map (\<lambda>r. cell_or_0 (total_emissions_tonnes_after_jit r))
                                      (filter (\<lambda>r. imo r = i) data)))" by blast
  with Cons show ?case by simp
qed

lemma aggregate_eq:
  "aggregate_and_analyze_emissions data all_imos =
     map (\<lambda>(i, v). \<lparr>imo = i, anc_after_jit = v, emission_range = emission_range_of v\<rparr>)
       (sort_key fst (map (\<lambda>i. (i, Some (sum_list (map (\<lambda>r. cell_or_0 (total_emissions_tonnes_after_jit r))
                                      (filter (\<lambda>r. imo r = i) data))))) all_imos))"
  by (simp add: aggregate_and_analyze_emissions_def Let_def final_emissions_eq)

lemma aggregate_imos: "mset (map imo (aggregate_and_analyze_emissions data all_imos)) = mset all_imos"
proof -
  let ?final = "map (\<lambda>i. (i, Some (sum_list (map (\<lambda>r. cell_or_0 (total_emissions_tonnes_after_jit r))
                                      (filter (\<lambda>r. imo r = i) data))))) all_imos"
  have "map imo (aggregate_and_analyze_emissions data all_imos) = map fst (sort_key fst ?final)"
    unfolding aggregate_eq by (simp add: case_prod_unfold comp_def)
  moreover have "mset (map fst (sort_key fst ?final)) = mset (map fst ?final)"
    by (simp only: mset_map mset_sort)
  moreover have "map fst ?final = all_imos" by (simp add: comp_def)
  ultimately show ?thesis by (simp only:)
qed

lemma aggregate_rows:
  "r \<in> set (aggregate_and_analyze_emissions data all_imos) \<Longrightarrow>
     imo r \<in> set all_imos
     \<and> anc_after_jit r = Some (sum_list (map (\<lambda>r. cell_or_0 (total_emissions_tonnes_after_jit r))
                                      (filter (\<lambda>q. imo q = imo r) data)))"
  unfolding aggregate_eq by auto

lemma sum_list_nonneg_rat: "(\<And>x. x \<in> set xs \<Longrightarrow> (0::rat) \<le> x) \<Longrightarrow> 0 \<le> sum_list xs"
  by (induction xs) simp_all

section \<open>Facts about the rows per vessel\<close>

lemma distinct_unique [simp]: "distinct (unique xs)"
  by (simp add: unique_def)

lemma set_unique [simp]: "set (unique xs) = set xs"
  by (simp add: unique_def)

lemma distinct_of_mset_eq: "mset xs = mset ys \<Longrightarrow> distinct ys \<Longrightarrow> distinct xs"
  using mset_eq_imp_distinct_iff by blast

lemma aggregate_one_row:
  assumes "distinct all_imos"
  shows "distinct (map imo (aggregate_and_analyze_emissions data all_imos))"
    and "set (map imo (aggregate_and_analyze_emissions data all_imos)) = set all_imos"
proof -
  note m = aggregate_imos [of data all_imos]
  show "distinct (map imo (aggregate_and_analyze_emissions data all_imos))"
    by (rule distinct_of_mset_eq [OF m assms])
  show "set (map imo (aggregate_and_analyze_emissions data all_imos)) = set all_imos"
    by (rule mset_eq_setD [OF m])
qed

lemma aggregate_zero:
  assumes "r \<in> set (aggregate_and_analyze_emissions data all_imos)" and "imo r \<notin> imo ` set data"
  shows "anc_after_jit r = Some 0"
proof -
  from assms(2) have "filter (\<lambda>q. imo q = imo r) data = []"
    by (auto simp: filter_empty_conv image_iff)
  with aggregate_rows [OF assms(1)] show ?thesis by simp
qed

lemma main_one_row:
  assumes "main ais_data aux boil = Inr fin"
  shows "distinct (map imo fin)" and "set (map imo fin) = imo ` set (rows ais_data)"
proof -
  from assms obtain ed imos where
    run: "main_emissions_data ais_data aux boil = Inr (ed, imos)"
    and fin: "fin = aggregate_and_analyze_emissions ed imos"
    by (auto simp: main_def split: sum.splits)
  from main_emissions_data_imos(2) [OF run] have imos: "imos = unique (map imo (rows ais_data))" .
  then have d: "distinct imos" by simp
  show "distinct (map imo fin)" unfolding fin by (rule aggregate_one_row(1) [OF d])
  show "set (map imo fin) = imo ` set (rows ais_data)"
    using aggregate_one_row(2) [OF d, of ed] by (simp add: fin imos)
qed

lemma savings_one_row:
  assumes "distinct (map fst before_jit)" and "distinct (map fst after_jit)"
    and "calculate_emission_savings (Some before_jit) (Some after_jit) = Inr merged"
  shows "distinct (map imo merged)"
proof -
  have "mset (map fst (sort_key fst (merge_outer before_jit after_jit)))
      = mset (map fst (merge_outer before_jit after_jit))"
    by (simp only: mset_map mset_sort)
  from distinct_of_mset_eq [OF this merge_outer_keys_distinct [OF assms(1,2)]]
  show ?thesis unfolding savings_imos [OF assms(3)] .
qed

lemma savings_zero_fill:
  assumes "calculate_emission_savings (Some before_jit) (Some after_jit) = Inr merged"
    and "r \<in> set merged"
  shows "(imo r \<notin> fst ` set after_jit \<longrightarrow> anc_after_jit r = Some 0)
       \<and> (imo r \<notin> fst ` set before_jit \<longrightarrow> anc_before_jit r = Some 0)"
proof -
  from savings_row_cells [OF assms] obtain x y where
    x: "(imo r, x) \<in> set before_jit \<or> imo r \<notin> fst ` set before_jit \<and> x = None"
    and y: "(imo r, y) \<in> set after_jit \<or> imo r \<notin> fst ` set after_jit \<and> y = None"
    and c: "anc_before_jit r = Some (cell_or_0 x)" "anc_after_jit r = Some (cell_or_0 y)"
    by (elim exE conjE)
  have "y = None" if "imo r \<notin> fst ` set after_jit"
    using y that by (auto simp: image_iff)
  moreover have "x = None" if "imo r \<notin> fst ` set before_jit"
    using x that by (auto simp: image_iff)
  ultimately show ?thesis using c by (auto simp: cell_or_0_def)
qed

lemma main_total:
  "timestamp_dtype ais_data \<noteq> No_column \<Longrightarrow> \<exists>fin. main ais_data aux boil = Inr fin"
  using main_emissions_data_total [of ais_data aux boil] by (auto simp: main_def)

lemma distinct_singleton_set: "distinct xs \<Longrightarrow> set xs = {a} \<Longrightarrow> xs = [a]"
proof -
  assume d: "distinct xs" and s: "set xs = {a}"
  from d have "length xs = card (set xs)" by (simp add: distinct_card)
  with s have "length xs = 1" by simp
  then obtain x where "xs = [x]" by (cases xs) auto
  with s show ?thesis by simp
qed

section \<open>Facts about signs\<close>

lemma emissions_row_nonneg:
  assumes "ael m = Some a" "abl m = Some b" "sfc_ae m = Some e" "sfc_ab m = Some f"
    and "activity_duration_hours m = Some d"
    and "0 \<le> a" "0 \<le> b" "0 \<le> e" "0 \<le> f" "0 \<le> d"
  shows "\<exists>x y. aux_emissions_after_jit (calculate_emissions_after_jit_row m) = Some x \<and> 0 \<le> x
     \<and> boiler_emissions_after_jit (calculate_emissions_after_jit_row m) = Some y \<and> 0 \<le> y
     \<and> total_emissions_grams_after_jit (calculate_emissions_after_jit_row m) = Some (x + y)
     \<and> total_emissions_tonnes_after_jit (calculate_emissions_after_jit_row m) = Some ((x + y) / 1000000)
     \<and> 0 \<le> (x + y) / 1000000"
proof -
  note f = emissions_row_formula [OF assms(1-5)]
  have j: "0 \<le> min d 3" using assms(10) by simp
  let ?x = "a * min d 3 * e * (867 / 1000) * (3667 / 1000)"
  let ?y = "b * min d 3 * f * (867 / 1000) * (3667 / 1000)"
  have x: "0 \<le> ?x" using assms(6,8) j by simp
  have y: "0 \<le> ?y" using assms(7,9) j by simp
  have t: "0 \<le> (?x + ?y) / 1000000" using x y by simp
  show ?thesis
    by (rule exI [of _ ?x], rule exI [of _ ?y]) (intro conjI f(2) f(3) f(4) f(5) x y t)
qed

lemma aggregate_nonneg:
  assumes "\<And>r t. r \<in> set data \<Longrightarrow> total_emissions_tonnes_after_jit r = Some t \<Longrightarrow> 0 \<le> t"
    and "r \<in> set (aggregate_and_analyze_emissions data all_imos)"
  shows "\<exists>v. anc_after_jit r = Some v \<and> 0 \<le> v"
proof -
  let ?cells = "map (\<lambda>r. cell_or_0 (total_emissions_tonnes_after_jit r)) (filter (\<lambda>q. imo q = imo r) data)"
  have "0 \<le> x" if "x \<in> set ?cells" for x
  proof -
    from that obtain q where q: "q \<in> set data" "x = cell_or_0 (total_emissions_tonnes_after_jit q)" by auto
    show ?thesis
    proof (cases "total_emissions_tonnes_after_jit q")
      case None
      with q show ?thesis by (simp add: cell_or_0_def)
    next
      case (Some t)
      with assms(1) [OF q(1) Some] q show ?thesis by (simp add: cell_or_0_def)
    qed
  qed
  then have "0 \<le> sum_list ?cells" by (rule sum_list_nonneg_rat)
  with aggregate_rows [OF assms(2)] show ?thesis by simp
qed

lemma load_and_analyze_data_rows:
  "mset (map (\<lambda>(i, v, l). (i, v)) (load_and_analyze_data emissions_df)) = mset emissions_df"
proof -
  have "map (\<lambda>(i, v, l). (i, v)) (load_and_analyze_data emissions_df) = sort_key fst emissions_df"
    by (simp add: load_and_analyze_data_def case_prod_unfold comp_def)
  then show ?thesis by simp
qed

lemma smaller_savings:
  "calculate_emission_savings (Some smaller_before) (Some sample_after) =
     Inr [\<lparr>imo = ''IMO1'', anc_after_jit = Some 3, anc_before_jit = Some 1,
            anc_savings_after_jit = Some (- 2), savings_range = Some ''Negative''\<rparr>]"
  by (simp add: calculate_emission_savings_Inr smaller_before_def sample_after_def merge_outer_def
      merge_cells_def cell_or_0_def savings_range_of_def cut_def savings_searchsorted)

section \<open>The worked example of the emissions formula\<close>

text \<open>
  The claim as written gives 190.97... grams for the example. The product
  \<open>10 \<times> 3 \<times> 2 \<times> 0.867 \<times> 3.667\<close> is 190.75734, which is what the formula of Job B
  computes on the example record, and that is below 190.97.
\<close>

theorem example_aux_emissions_not_190_97:
  "aux_emissions_after_jit (calculate_emissions_after_jit_row example_row) = Some (19075734 / 100000)
   \<and> \<not> ((19097 / 100 :: rat) \<le> 19075734 / 100000)"
  by (simp add: calculate_emissions_after_jit_row_sel example_row_def clip_upper_def notna_def nmul_def)

text \<open>
  C9 (amended): for a record with \<open>ael = 10\<close>, \<open>sfc_ae = 2\<close> and a JIT duration of 3
  hours, the auxiliary emissions of the Job B formula are
  \<open>10 \<times> 3 \<times> 2 \<times> 0.867 \<times> 3.667 = 190.75734\<close> grams, which is 0.00019075734 tonnes,
  about 0.00019.
\<close>

theorem example_aux_emissions:
  "ael r = Some 10 \<Longrightarrow> sfc_ae r = Some 2 \<Longrightarrow>
     jit_activity_duration_hours (calculate_emissions_after_jit_row r) = Some 3 \<Longrightarrow>
     aux_emissions_after_jit (calculate_emissions_after_jit_row r) = Some (19075734 / 100000)
     \<and> ndiv (aux_emissions_after_jit (calculate_emissions_after_jit_row r)) 1000000 = Some (19075734 / 100000000000)
     \<and> (19 / 100000 :: rat) \<le> 19075734 / 100000000000 \<and> (19075734 / 100000000000 :: rat) < 20 / 100000"
  by (simp add: calculate_emissions_after_jit_row_sel notna_def nmul_def ndiv_def)

theorem example_aux_emissions_witness:
  "ael example_row = Some 10 \<and> sfc_ae example_row = Some 2
   \<and> jit_activity_duration_hours (calculate_emissions_after_jit_row example_row) = Some 3
   \<and> aux_emissions_after_jit (calculate_emissions_after_jit_row example_row) = Some (19075734 / 100000)
   \<and> total_emissions_tonnes_after_jit (calculate_emissions_after_jit_row example_row) = Some (19075734 / 100000000000)"
proof -
  have a: "ael example_row = Some 10" and s: "sfc_ae example_row = Some 2"
    by (simp_all add: example_row_def)
  have j: "jit_activity_duration_hours (calculate_emissions_after_jit_row example_row) = Some 3"
    by (simp add: calculate_emissions_after_jit_row_sel example_row_def clip_upper_def)
  have t: "total_emissions_tonnes_after_jit (calculate_emissions_after_jit_row example_row) = Some (19075734 / 100000000000)"
    by (simp add: calculate_emissions_after_jit_row_sel example_row_def clip_upper_def notna_def nmul_def nadd_def ndiv_def)
  from example_aux_emissions [OF a s j] a s j t show ?thesis by simp
qed

section \<open>Range labels\<close>

text \<open>
  C5: in the bucketing of the emission jobs, a value of exactly 0 should get the label
  "Zero". The code gives it no label: the first bin is open at its lower edge 0, so 0
  lies in no bin. This is the value of the code at 0, alone and in the tables that
  Job B and Job A return for a vessel with emissions 0.
\<close>

theorem zero_emission_has_no_range:
  "emission_range_of (Some 0) = None
   \<and> aggregate_and_analyze_emissions [] [''IMO1'']
       = [\<lparr>imo = ''IMO1'', anc_after_jit = Some 0, emission_range = None\<rparr>]
   \<and> load_and_analyze_data [(''IMO1'', Some 0)] = [(''IMO1'', Some 0, None)]"
  by (simp add: emission_range_of_def cut_def searchsorted_left_def aggregate_and_analyze_emissions_def
      groupby_sum_def merge_cells_def fillna_def load_and_analyze_data_def)



section \<open>The entry-point guards\<close>

text \<open>
  C6: run as a script, \<open>anc_after_jit.py\<close> and \<open>anc_before_jit.py\<close> read the name
  \<open>name\<close> in their guard. Nothing binds it (neither the builtins nor the module's
  globals), so the run ends with NameError and calls neither \<open>main\<close> nor
  \<open>load_and_analyze_data\<close>.
\<close>

theorem entry_guard_reads_undefined_name:
  "builtins ''name'' = None \<Longrightarrow> g0 ''name'' = None \<Longrightarrow>
     anc_after_jit_script builtins g0 = (Some (NameError ''name''), [])
     \<and> anc_before_jit_script builtins g0 = (Some (NameError ''name''), [])"
  by (simp add: anc_after_jit_script_def anc_before_jit_script_def load_name_def)

theorem entry_guard_reads_undefined_name_witness:
  "some_builtins ''name'' = None \<and> script_globals ''name'' = None
   \<and> anc_after_jit_script some_builtins script_globals = (Some (NameError ''name''), [])
   \<and> anc_before_jit_script some_builtins script_globals = (Some (NameError ''name''), [])
   \<and> anc_savings_after_jit_script some_builtins script_globals = (None, [''calculate_emission_savings''])"
proof -
  have b: "some_builtins ''name'' = None" by (simp add: some_builtins_def)
  have g: "script_globals ''name'' = None" by (simp add: script_globals_def)
  have c: "anc_savings_after_jit_script some_builtins script_globals = (None, [''calculate_emission_savings''])"
    by (simp add: anc_savings_after_jit_script_def load_name_def script_globals_def)
  from entry_guard_reads_undefined_name [of some_builtins script_globals, OF b g] b g c
  show ?thesis by simp
qed

section \<open>The emissions formula of Job B\<close>

text \<open>
  C1: for every record of the table \<open>emissions_data\<close> of Job B, the loads, the factors
  and the duration are present, the JIT duration is the duration capped at 3 hours,
  the auxiliary (boiler) emissions in grams are \<open>ael\<close> (\<open>abl\<close>) times the JIT duration
  times \<open>sfc_ae\<close> (\<open>sfc_ab\<close>) times 0.867 times 3.667, the total in grams is their sum,
  and the total in tonnes is that sum divided by 1,000,000.
\<close>

theorem emissions_formula:
  assumes "main_emissions_data ais_data aux_engine_factors boiler_engine_factors = Inr (emissions_data, all_imos)"
    and "r \<in> set emissions_data"
  shows "\<exists>a b e f d0. ael r = Some a \<and> abl r = Some b \<and> sfc_ae r = Some e \<and> sfc_ab r = Some f
      \<and> activity_duration_hours r = Some d0
      \<and> jit_activity_duration_hours r = Some (min d0 3)
      \<and> aux_emissions_after_jit r = Some (a * min d0 3 * e * (867 / 1000) * (3667 / 1000))
      \<and> boiler_emissions_after_jit r = Some (b * min d0 3 * f * (867 / 1000) * (3667 / 1000))
      \<and> total_emissions_grams_after_jit r
          = Some (a * min d0 3 * e * (867 / 1000) * (3667 / 1000)
                  + b * min d0 3 * f * (867 / 1000) * (3667 / 1000))
      \<and> total_emissions_tonnes_after_jit r
          = Some ((a * min d0 3 * e * (867 / 1000) * (3667 / 1000)
                  + b * min d0 3 * f * (867 / 1000) * (3667 / 1000)) / 1000000)"
proof -
  from emissions_data_rows [OF assms] obtain r0 x fa fb where
    r: "r = calculate_emissions_after_jit_row
             (with_factors (with_duration (fill_loads r0) (Some x)) (fillna 0 fa) (fillna 0 fb))"
    by blast
  let ?m = "with_factors (with_duration (fill_loads r0) (Some x)) (fillna 0 fa) (fillna 0 fb)"
  obtain a where a: "ael ?m = Some a" using fillna_Some [of 0 "ael r0"] by auto
  obtain b where b: "abl ?m = Some b" using fillna_Some [of 0 "abl r0"] by auto
  obtain e where e: "sfc_ae ?m = Some e" using fillna_Some [of 0 fa] by auto
  obtain f where f: "sfc_ab ?m = Some f" using fillna_Some [of 0 fb] by auto
  have d: "activity_duration_hours ?m = Some x" by simp
  note formula = emissions_row_formula [OF a b e f d]
  have sel: "ael r = Some a" "abl r = Some b" "sfc_ae r = Some e" "sfc_ab r = Some f"
    "activity_duration_hours r = Some x"
    unfolding r using a b e f d by (simp_all only: calculate_emissions_after_jit_row_sel)
  show ?thesis
    apply (rule exI [of _ a], rule exI [of _ b], rule exI [of _ e], rule exI [of _ f], rule exI [of _ x])
    using sel formula unfolding r by simp
qed

theorem emissions_formula_witness:
  "main_emissions_data sample_ais sample_aux_factors sample_boiler_factors
     = Inr (map calculate_emissions_after_jit_row sample_merged, [''IMO1''])
   \<and> calculate_emissions_after_jit_row (sample_merged ! 1)
       \<in> set (map calculate_emissions_after_jit_row sample_merged)
   \<and> jit_activity_duration_hours (calculate_emissions_after_jit_row (sample_merged ! 1)) = Some 3
   \<and> aux_emissions_after_jit (calculate_emissions_after_jit_row (sample_merged ! 1))
       = Some (10 * 3 * 2 * (867 / 1000) * (3667 / 1000))
   \<and> boiler_emissions_after_jit (calculate_emissions_after_jit_row (sample_merged ! 1))
       = Some (4 * 3 * 1 * (867 / 1000) * (3667 / 1000))
   \<and> total_emissions_tonnes_after_jit (calculate_emissions_after_jit_row (sample_merged ! 1))
       = Some ((10 * 3 * 2 * (867 / 1000) * (3667 / 1000) + 4 * 3 * 1 * (867 / 1000) * (3667 / 1000)) / 1000000)"
proof -
  let ?r = "calculate_emissions_after_jit_row (sample_merged ! 1)"
  have mem: "?r \<in> set (map calculate_emissions_after_jit_row sample_merged)"
    by (simp add: sample_merged_def)
  have cells: "ael ?r = Some 10" "abl ?r = Some 4" "sfc_ae ?r = Some 2" "sfc_ab ?r = Some 1"
    "activity_duration_hours ?r = Some 5"
    by (simp_all add: calculate_emissions_after_jit_row_sel sample_merged_def)
  from emissions_formula [OF sample_main_emissions_data mem] cells
  have "jit_activity_duration_hours ?r = Some (min 5 3)"
    "aux_emissions_after_jit ?r = Some (10 * min 5 3 * 2 * (867 / 1000) * (3667 / 1000))"
    "boiler_emissions_after_jit ?r = Some (4 * min 5 3 * 1 * (867 / 1000) * (3667 / 1000))"
    "total_emissions_tonnes_after_jit ?r
       = Some ((10 * min 5 3 * 2 * (867 / 1000) * (3667 / 1000)
                + 4 * min 5 3 * 1 * (867 / 1000) * (3667 / 1000)) / 1000000)"
    by auto
  moreover have "min (5::rat) 3 = 3" by simp
  ultimately show ?thesis
    using sample_main_emissions_data mem by simp
qed

section \<open>Bounds on the durations\<close>

text \<open>
  C4: \<open>calculate_duration\<close> returns a table in which every record has a duration of at
  most 24 hours, and a duration of exactly 1 hour when the table has no timestamp
  column, when the derivation raised, when the record's timestamp is missing (absent
  or invalid), and for the first record of each vessel; the JIT duration that
  \<open>calculate_emissions_after_jit\<close> derives from a duration is at most 3 hours, and is 1
  hour when the duration is; and so in the table \<open>emissions_data\<close> of Job B every
  record has a duration of at most 24 hours and a JIT duration of at most 3 hours,
  both exactly 1 hour when its timestamp is missing.
\<close>

theorem duration_bounds:
  "(\<exists>out. calculate_duration df = Inr out \<and> length (rows out) = length (rows df)
     \<and> (\<forall>i<length (rows out). \<exists>d. activity_duration_hours (rows out ! i) = Some d \<and> d \<le> 24
           \<and> (timestamp_dtype df = No_column \<or> (\<exists>e. calculate_duration_try df = Inl e)
                \<or> timestamp (rows out ! i) = None
                \<or> (\<forall>k<i. imo (rows out ! k) \<noteq> imo (rows out ! i)) \<longrightarrow> d = 1)))
   \<and> (\<forall>d. activity_duration_hours m = Some d \<longrightarrow>
         (\<exists>j. jit_activity_duration_hours (calculate_emissions_after_jit_row m) = Some j \<and> j \<le> 3
              \<and> (d = 1 \<longrightarrow> j = 1)))
   \<and> (\<forall>emissions_data all_imos.
         main_emissions_data ais_data aux_engine_factors boiler_engine_factors = Inr (emissions_data, all_imos) \<longrightarrow>
         (\<forall>r\<in>set emissions_data. \<exists>d j. activity_duration_hours r = Some d \<and> d \<le> 24
             \<and> jit_activity_duration_hours r = Some j \<and> j \<le> 3
             \<and> (timestamp r = None \<longrightarrow> d = 1 \<and> j = 1)))"
proof (intro conjI allI impI ballI)
  show "\<exists>out. calculate_duration df = Inr out \<and> length (rows out) = length (rows df)
     \<and> (\<forall>i<length (rows out). \<exists>d. activity_duration_hours (rows out ! i) = Some d \<and> d \<le> 24
           \<and> (timestamp_dtype df = No_column \<or> (\<exists>e. calculate_duration_try df = Inl e)
                \<or> timestamp (rows out ! i) = None
                \<or> (\<forall>k<i. imo (rows out ! k) \<noteq> imo (rows out ! i)) \<longrightarrow> d = 1))"
    by (rule calculate_duration_bounds)
next
  fix d assume "activity_duration_hours m = Some d"
  then show "\<exists>j. jit_activity_duration_hours (calculate_emissions_after_jit_row m) = Some j \<and> j \<le> 3
              \<and> (d = 1 \<longrightarrow> j = 1)"
    by (rule jit_duration_le_3)
next
  fix emissions_data all_imos r
  assume run: "main_emissions_data ais_data aux_engine_factors boiler_engine_factors = Inr (emissions_data, all_imos)"
    and r: "r \<in> set emissions_data"
  from emissions_data_rows [OF run r] obtain r0 x a b where
    x: "x \<le> 24" "timestamp r0 = None \<longrightarrow> x = 1"
    and req: "r = calculate_emissions_after_jit_row
             (with_factors (with_duration (fill_loads r0) (Some x)) (fillna 0 a) (fillna 0 b))"
    by (elim bexE exE conjE)
  let ?m = "with_factors (with_duration (fill_loads r0) (Some x)) (fillna 0 a) (fillna 0 b)"
  have dm: "activity_duration_hours ?m = Some x" by simp
  from jit_duration_le_3 [OF dm] obtain j where
    j: "jit_activity_duration_hours (calculate_emissions_after_jit_row ?m) = Some j" "j \<le> 3" "x = 1 \<longrightarrow> j = 1"
    by (elim exE conjE)
  have d: "activity_duration_hours r = Some x"
    unfolding req by (simp add: calculate_emissions_after_jit_row_sel)
  have ts: "timestamp r = timestamp r0"
    unfolding req by (simp add: calculate_emissions_after_jit_row_sel)
  have one: "timestamp r = None \<longrightarrow> x = 1 \<and> j = 1" using ts x(2) j(3) by simp
  have jr: "jit_activity_duration_hours r = Some j" unfolding req by (rule j(1))
  show "\<exists>d j. activity_duration_hours r = Some d \<and> d \<le> 24
             \<and> jit_activity_duration_hours r = Some j \<and> j \<le> 3
             \<and> (timestamp r = None \<longrightarrow> d = 1 \<and> j = 1)"
    by (rule exI [of _ x], rule exI [of _ j]) (intro conjI d x(1) jr j(2) one)
qed

theorem duration_bounds_witness:
  "calculate_duration (sample_ais\<lparr>rows := map fill_loads (rows sample_ais)\<rparr>) = Inr sample_processed
   \<and> activity_duration_hours (rows sample_processed ! 0) = Some 1
   \<and> activity_duration_hours (rows sample_processed ! 1) = Some 5
   \<and> timestamp (rows sample_processed ! 2) = None
   \<and> activity_duration_hours (rows sample_processed ! 2) = Some 1
   \<and> jit_activity_duration_hours (calculate_emissions_after_jit_row (sample_merged ! 1)) = Some 3
   \<and> timestamp (calculate_emissions_after_jit_row (sample_merged ! 2)) = None
   \<and> activity_duration_hours (calculate_emissions_after_jit_row (sample_merged ! 2)) = Some 1
   \<and> jit_activity_duration_hours (calculate_emissions_after_jit_row (sample_merged ! 2)) = Some 1"
proof -
  let ?df = "sample_ais\<lparr>rows := map fill_loads (rows sample_ais)\<rparr>"
  let ?r = "calculate_emissions_after_jit_row (sample_merged ! 2)"
  note bounds = duration_bounds [of ?df "sample_merged ! 1" sample_ais sample_aux_factors sample_boiler_factors]
  from bounds sample_calculate_duration have rows:
    "\<forall>i<length (rows sample_processed). \<exists>d. activity_duration_hours (rows sample_processed ! i) = Some d \<and> d \<le> 24
           \<and> (timestamp_dtype ?df = No_column \<or> (\<exists>e. calculate_duration_try ?df = Inl e)
                \<or> timestamp (rows sample_processed ! i) = None
                \<or> (\<forall>k<i. imo (rows sample_processed ! k) \<noteq> imo (rows sample_processed ! i)) \<longrightarrow> d = 1)"
    by simp
  have len: "length (rows sample_processed) = 3" by (simp add: sample_processed_def)
  have nat: "timestamp (rows sample_processed ! 2) = None" by (simp add: sample_processed_def)
  have "0 < length (rows sample_processed)" using len by simp
  from rows [rule_format, OF this]
  have d0: "activity_duration_hours (rows sample_processed ! 0) = Some 1" by auto
  have "2 < length (rows sample_processed)" using len by simp
  from rows [rule_format, OF this] nat
  have d2: "activity_duration_hours (rows sample_processed ! 2) = Some 1" by auto
  have d1: "activity_duration_hours (rows sample_processed ! 1) = Some 5"
    by (simp add: sample_processed_def)
  have m1: "activity_duration_hours (sample_merged ! 1) = Some 5" by (simp add: sample_merged_def)
  from bounds m1 have "\<exists>j. jit_activity_duration_hours (calculate_emissions_after_jit_row (sample_merged ! 1)) = Some j \<and> j \<le> 3"
    by simp
  moreover have "jit_activity_duration_hours (calculate_emissions_after_jit_row (sample_merged ! 1)) = Some (min 5 3)"
    by (simp add: calculate_emissions_after_jit_row_sel sample_merged_def clip_upper_def)
  ultimately have j1: "jit_activity_duration_hours (calculate_emissions_after_jit_row (sample_merged ! 1)) = Some 3"
    by simp
  have mem: "?r \<in> set (map calculate_emissions_after_jit_row sample_merged)"
    by (simp add: sample_merged_def)
  have tr: "timestamp ?r = None" by (simp add: calculate_emissions_after_jit_row_sel sample_merged_def)
  note bounds [THEN conjunct2, THEN conjunct2, rule_format, OF sample_main_emissions_data mem]
  with tr have "activity_duration_hours ?r = Some 1" "jit_activity_duration_hours ?r = Some 1"
    by auto
  with sample_calculate_duration d0 d1 nat d2 j1 tr show ?thesis by simp
qed

section \<open>A failure of the duration derivation\<close>

text \<open>
  C8: whatever exception the body of the \<open>try\<close> of \<open>calculate_duration\<close> raises, the
  function does not raise: it returns the table it had reached (a reordering of its
  input) with a duration of 1 hour on every record; and when the derivation raises in
  Job B (on the table that \<open>preprocess_data\<close> passes to it), the job goes on to its end,
  with a duration (and a JIT duration) of 1 hour on every record.
\<close>

theorem duration_error_not_propagated:
  "(\<forall>e df1. calculate_duration_try df = Inl (e, df1) \<longrightarrow>
      (\<exists>out. calculate_duration df = Inr out
         \<and> map ais_row.truncate (rows out) = rows df1
         \<and> mset (rows df1) = mset (rows df)
         \<and> (\<forall>r\<in>set (rows out). activity_duration_hours r = Some 1)))
   \<and> (\<forall>e df1. calculate_duration_try (ais_data\<lparr>rows := map fill_loads (rows ais_data)\<rparr>) = Inl (e, df1) \<longrightarrow>
      (\<exists>processed_data emissions_data all_imos.
         preprocess_data ais_data = Inr (processed_data, all_imos)
         \<and> (\<forall>r\<in>set (rows processed_data). activity_duration_hours r = Some 1)
         \<and> main_emissions_data ais_data aux_engine_factors boiler_engine_factors = Inr (emissions_data, all_imos)
         \<and> (\<forall>r\<in>set emissions_data. activity_duration_hours r = Some 1
                \<and> jit_activity_duration_hours r = Some 1)
         \<and> main ais_data aux_engine_factors boiler_engine_factors
             = Inr (aggregate_and_analyze_emissions emissions_data all_imos)))"
proof (intro conjI allI impI)
  fix e df1
  assume failed: "calculate_duration_try df = Inl (e, df1)"
  let ?out = "assign_durations df1 (replicate (length (rows df1)) (Some 1))"
  have out: "calculate_duration df = Inr ?out" by (rule calculate_duration_handler [OF failed])
  note t = calculate_duration_try_Inl [OF failed]
  have tr: "map ais_row.truncate (rows ?out) = rows df1"
    using calculate_duration_truncate [OF out] t by simp
  have ms: "mset (rows df1) = mset (rows df)" using t(2) by simp
  have ones: "\<forall>r\<in>set (rows ?out). activity_duration_hours r = Some 1"
    by (intro ballI) (rule assign_ones_durations)
  show "\<exists>out. calculate_duration df = Inr out
         \<and> map ais_row.truncate (rows out) = rows df1
         \<and> mset (rows df1) = mset (rows df)
         \<and> (\<forall>r\<in>set (rows out). activity_duration_hours r = Some 1)"
    by (rule exI [of _ ?out]) (intro conjI out tr ms ones)
next
  fix e df1
  let ?df = "ais_data\<lparr>rows := map fill_loads (rows ais_data)\<rparr>"
  assume failed: "calculate_duration_try ?df = Inl (e, df1)"
  then have fails: "\<exists>e. calculate_duration_try ?df = Inl e" by simp
  from calculate_duration_try_Inl(1) [OF failed] have col: "timestamp_dtype ais_data \<noteq> No_column"
    by simp
  from preprocess_data_Inr [OF col] obtain out where
    cd: "calculate_duration ?df = Inr out"
    and pre: "preprocess_data ais_data = Inr (out, unique (map imo (rows ais_data)))"
    by (elim exE conjE)
  from cd calculate_duration_handler [OF failed]
  have oe: "out = assign_durations df1 (replicate (length (rows df1)) (Some 1))" by simp
  have ones: "\<forall>r\<in>set (rows out). activity_duration_hours r = Some 1"
    unfolding oe by (intro ballI) (rule assign_ones_durations)
  from main_emissions_data_total [OF col, of aux_engine_factors boiler_engine_factors]
  obtain ed imos where run: "main_emissions_data ais_data aux_engine_factors boiler_engine_factors = Inr (ed, imos)"
    by (elim exE)
  from main_emissions_data_imos(2) [OF run] have imos: "imos = unique (map imo (rows ais_data))" .
  from pre imos have pre': "preprocess_data ais_data = Inr (out, imos)" by simp
  have ed: "\<forall>r\<in>set ed. activity_duration_hours r = Some 1 \<and> jit_activity_duration_hours r = Some 1"
  proof
    fix r assume "r \<in> set ed"
    from emissions_data_rows [OF run this] obtain r0 x a b where
      one: "(\<exists>e. calculate_duration_try ?df = Inl e) \<longrightarrow> x = 1"
      and r: "r = calculate_emissions_after_jit_row
             (with_factors (with_duration (fill_loads r0) (Some x)) (fillna 0 a) (fillna 0 b))"
      by (elim bexE exE conjE)
    from one fails have "x = 1" by (rule mp)
    with r show "activity_duration_hours r = Some 1 \<and> jit_activity_duration_hours r = Some 1"
      by (simp add: calculate_emissions_after_jit_row_sel clip_upper_def)
  qed
  show "\<exists>processed_data emissions_data all_imos.
         preprocess_data ais_data = Inr (processed_data, all_imos)
         \<and> (\<forall>r\<in>set (rows processed_data). activity_duration_hours r = Some 1)
         \<and> main_emissions_data ais_data aux_engine_factors boiler_engine_factors = Inr (emissions_data, all_imos)
         \<and> (\<forall>r\<in>set emissions_data. activity_duration_hours r = Some 1
                \<and> jit_activity_duration_hours r = Some 1)
         \<and> main ais_data aux_engine_factors boiler_engine_factors
             = Inr (aggregate_and_analyze_emissions emissions_data all_imos)"
    by (rule exI [of _ out], rule exI [of _ ed], rule exI [of _ imos])
      (intro conjI pre' ones run ed main_of_emissions_data [OF run])
qed

theorem duration_error_not_propagated_witness:
  "calculate_duration_try sample_ais_other =
     Inl (AttributeError ''Can only use .dt accessor with datetimelike values'',
          sample_ais_other\<lparr>rows := sort_values_imo_timestamp (rows sample_ais_other)\<rparr>)
   \<and> (\<exists>out. calculate_duration sample_ais_other = Inr out
        \<and> length (rows out) = 3
        \<and> activity_duration_hours (rows out ! 0) = Some 1
        \<and> activity_duration_hours (rows out ! 1) = Some 1
        \<and> activity_duration_hours (rows out ! 2) = Some 1)
   \<and> calculate_duration_try (sample_ais_overflow\<lparr>rows := map fill_loads (rows sample_ais_overflow)\<rparr>) =
       Inl (OverflowError ''Overflow in int64 addition'',
            sample_ais_overflow\<lparr>rows := sort_values_imo_timestamp (map fill_loads (rows sample_ais_overflow))\<rparr>)
   \<and> (\<exists>emissions_data all_imos.
         main_emissions_data sample_ais_overflow sample_aux_factors sample_boiler_factors
           = Inr (emissions_data, all_imos)
         \<and> emissions_data \<noteq> []
         \<and> (\<forall>r\<in>set emissions_data. activity_duration_hours r = Some 1
                \<and> jit_activity_duration_hours r = Some 1)
         \<and> main sample_ais_overflow sample_aux_factors sample_boiler_factors
             = Inr (aggregate_and_analyze_emissions emissions_data all_imos))"
proof -
  note inst = duration_error_not_propagated
      [of sample_ais_other sample_ais_overflow sample_aux_factors sample_boiler_factors]
  from inst [THEN conjunct1, THEN spec, THEN spec, THEN mp, OF sample_other_try]
  obtain out where
    out: "calculate_duration sample_ais_other = Inr out"
      "map ais_row.truncate (rows out) = rows (sample_ais_other\<lparr>rows := sort_values_imo_timestamp (rows sample_ais_other)\<rparr>)"
      "\<forall>r\<in>set (rows out). activity_duration_hours r = Some 1"
    by (elim exE conjE)
  from out(2) have "length (map ais_row.truncate (rows out)) = 3"
    by (simp add: sample_ais_other_def sample_ais_def)
  then have len: "length (rows out) = 3" by simp
  then have "rows out ! 0 \<in> set (rows out)" "rows out ! 1 \<in> set (rows out)" "rows out ! 2 \<in> set (rows out)"
    by simp_all
  with out(3) have "activity_duration_hours (rows out ! 0) = Some 1"
    "activity_duration_hours (rows out ! 1) = Some 1" "activity_duration_hours (rows out ! 2) = Some 1"
    by simp_all
  with out(1) len have c1: "\<exists>out. calculate_duration sample_ais_other = Inr out
        \<and> length (rows out) = 3
        \<and> activity_duration_hours (rows out ! 0) = Some 1
        \<and> activity_duration_hours (rows out ! 1) = Some 1
        \<and> activity_duration_hours (rows out ! 2) = Some 1"
    by (intro exI [of _ out] conjI)
  from inst [THEN conjunct2, THEN spec, THEN spec, THEN mp, OF sample_overflow_try]
  obtain ed imos where
    run: "main_emissions_data sample_ais_overflow sample_aux_factors sample_boiler_factors = Inr (ed, imos)"
    and ones: "\<forall>r\<in>set ed. activity_duration_hours r = Some 1 \<and> jit_activity_duration_hours r = Some 1"
    and fin: "main sample_ais_overflow sample_aux_factors sample_boiler_factors
             = Inr (aggregate_and_analyze_emissions ed imos)"
    by (elim exE conjE)
  have "imo ` set (rows sample_ais_overflow) \<noteq> {}"
    by (simp add: sample_ais_overflow_def)
  with main_emissions_data_imos(1) [OF run] have "imo ` set ed \<noteq> {}" by simp
  then have ne: "ed \<noteq> []" by (cases ed) simp_all
  have c2: "\<exists>emissions_data all_imos.
         main_emissions_data sample_ais_overflow sample_aux_factors sample_boiler_factors
           = Inr (emissions_data, all_imos)
         \<and> emissions_data \<noteq> []
         \<and> (\<forall>r\<in>set emissions_data. activity_duration_hours r = Some 1
                \<and> jit_activity_duration_hours r = Some 1)
         \<and> main sample_ais_overflow sample_aux_factors sample_boiler_factors
             = Inr (aggregate_and_analyze_emissions emissions_data all_imos)"
    by (rule exI [of _ ed], rule exI [of _ imos]) (intro conjI run ne ones fin)
  show ?thesis
    by (intro conjI sample_other_try c1 sample_overflow_try c2)
qed

section \<open>The savings of Job C\<close>

text \<open>
  C2: Job C returns a table whose vessel identifiers are those of the before table and
  those of the after table; in every row the before and the after value are the values
  of the two tables for that vessel, a missing one (no row for the vessel, or a missing
  cell) replaced by 0, and the savings are exactly the before value minus the after
  value; a vessel that only the before table has gets \<open>anc_after_jit = 0\<close> and savings
  equal to its before value.
\<close>

theorem savings_are_before_minus_after:
  "\<exists>merged. calculate_emission_savings (Some before_jit) (Some after_jit) = Inr merged
     \<and> imo ` set merged = fst ` set before_jit \<union> fst ` set after_jit
     \<and> (\<forall>r\<in>set merged. \<exists>x y.
           ((imo r, x) \<in> set before_jit \<or> imo r \<notin> fst ` set before_jit \<and> x = None)
         \<and> ((imo r, y) \<in> set after_jit \<or> imo r \<notin> fst ` set after_jit \<and> y = None)
         \<and> anc_before_jit r = Some (cell_or_0 x) \<and> anc_after_jit r = Some (cell_or_0 y)
         \<and> anc_savings_after_jit r = Some (cell_or_0 x - cell_or_0 y))
     \<and> (\<forall>r\<in>set merged. imo r \<notin> fst ` set after_jit \<longrightarrow>
           anc_after_jit r = Some 0 \<and> anc_savings_after_jit r = anc_before_jit r)
     \<and> (\<forall>i x. (i, x) \<in> set before_jit \<and> i \<notin> fst ` set after_jit \<longrightarrow>
           \<lparr>imo = i, anc_after_jit = Some 0, anc_before_jit = Some (cell_or_0 x),
              anc_savings_after_jit = Some (cell_or_0 x),
              savings_range = savings_range_of (Some (cell_or_0 x))\<rparr> \<in> set merged)"
proof -
  obtain merged where run: "calculate_emission_savings (Some before_jit) (Some after_jit) = Inr merged"
    by (simp add: calculate_emission_savings_Inr)
  note rows = savings_rows [OF run]
  have keys: "imo ` set merged = fst ` set before_jit \<union> fst ` set after_jit"
  proof -
    have "imo ` set merged = set (map imo merged)" by simp
    also have "\<dots> = fst ` set (merge_outer before_jit after_jit)"
      unfolding savings_imos [OF run] by simp
    finally show ?thesis by (simp add: merge_outer_keys)
  qed
  note each = savings_row_cells [OF run]
  have only_before: "anc_after_jit r = Some 0 \<and> anc_savings_after_jit r = anc_before_jit r"
    if "r \<in> set merged" "imo r \<notin> fst ` set after_jit" for r
  proof -
    from each [OF that(1)] obtain x y where
      "(imo r, y) \<in> set after_jit \<or> imo r \<notin> fst ` set after_jit \<and> y = None"
      "anc_before_jit r = Some (cell_or_0 x)" "anc_after_jit r = Some (cell_or_0 y)"
      "anc_savings_after_jit r = Some (cell_or_0 x - cell_or_0 y)" by (elim exE conjE)
    moreover from that(2) have "(imo r, y) \<notin> set after_jit" for y by force
    ultimately show ?thesis by (simp add: cell_or_0_def)
  qed
  have example: "\<lparr>imo = i, anc_after_jit = Some 0, anc_before_jit = Some (cell_or_0 x),
              anc_savings_after_jit = Some (cell_or_0 x),
              savings_range = savings_range_of (Some (cell_or_0 x))\<rparr> \<in> set merged"
    if "(i, x) \<in> set before_jit \<and> i \<notin> fst ` set after_jit" for i x
  proof -
    from that have "merge_cells after_jit i = [None]" by (simp add: merge_cells_absent)
    with that have "(i, x, None) \<in> set (merge_outer before_jit after_jit)"
      unfolding merge_outer_set by simp
    then show ?thesis
      unfolding rows
      by (intro exI [of _ i] exI [of _ x] exI [of _ None]) (simp add: cell_or_0_def)
  qed
  have c3: "\<forall>r\<in>set merged. \<exists>x y.
           ((imo r, x) \<in> set before_jit \<or> imo r \<notin> fst ` set before_jit \<and> x = None)
         \<and> ((imo r, y) \<in> set after_jit \<or> imo r \<notin> fst ` set after_jit \<and> y = None)
         \<and> anc_before_jit r = Some (cell_or_0 x) \<and> anc_after_jit r = Some (cell_or_0 y)
         \<and> anc_savings_after_jit r = Some (cell_or_0 x - cell_or_0 y)"
    by (intro ballI) (rule each)
  have c4: "\<forall>r\<in>set merged. imo r \<notin> fst ` set after_jit \<longrightarrow>
           anc_after_jit r = Some 0 \<and> anc_savings_after_jit r = anc_before_jit r"
    by (intro ballI impI) (rule only_before)
  have c5: "\<forall>i x. (i, x) \<in> set before_jit \<and> i \<notin> fst ` set after_jit \<longrightarrow>
           \<lparr>imo = i, anc_after_jit = Some 0, anc_before_jit = Some (cell_or_0 x),
              anc_savings_after_jit = Some (cell_or_0 x),
              savings_range = savings_range_of (Some (cell_or_0 x))\<rparr> \<in> set merged"
    by (intro allI impI) (rule example)
  show ?thesis
    by (rule exI [of _ merged]) (intro conjI run keys c3 c4 c5)
qed

theorem savings_are_before_minus_after_witness:
  "calculate_emission_savings (Some sample_before) (Some sample_after) =
     Inr [\<lparr>imo = ''IMO1'', anc_after_jit = Some 3, anc_before_jit = Some 5,
            anc_savings_after_jit = Some 2, savings_range = Some ''1-10''\<rparr>,
          \<lparr>imo = ''IMO2'', anc_after_jit = Some 0, anc_before_jit = Some 2,
            anc_savings_after_jit = Some 2, savings_range = Some ''1-10''\<rparr>]
   \<and> (''IMO2'', Some 2) \<in> set sample_before \<and> ''IMO2'' \<notin> fst ` set sample_after
   \<and> \<lparr>imo = ''IMO2'', anc_after_jit = Some 0, anc_before_jit = Some 2,
            anc_savings_after_jit = Some 2, savings_range = savings_range_of (Some 2)\<rparr>
       \<in> set [\<lparr>imo = ''IMO1'', anc_after_jit = Some 3, anc_before_jit = Some 5,
            anc_savings_after_jit = Some 2, savings_range = Some ''1-10''\<rparr>,
          \<lparr>imo = ''IMO2'', anc_after_jit = Some 0, anc_before_jit = Some 2,
            anc_savings_after_jit = Some 2, savings_range = Some ''1-10''\<rparr>]"
proof -
  have b: "(''IMO2'', Some 2) \<in> set sample_before \<and> ''IMO2'' \<notin> fst ` set sample_after"
    by (simp add: sample_before_def sample_after_def)
  from savings_are_before_minus_after [of sample_before sample_after] obtain merged where
    m: "calculate_emission_savings (Some sample_before) (Some sample_after) = Inr merged"
    and ex: "\<forall>i x. (i, x) \<in> set sample_before \<and> i \<notin> fst ` set sample_after \<longrightarrow>
           \<lparr>imo = i, anc_after_jit = Some 0, anc_before_jit = Some (cell_or_0 x),
              anc_savings_after_jit = Some (cell_or_0 x),
              savings_range = savings_range_of (Some (cell_or_0 x))\<rparr> \<in> set merged"
    by (elim exE conjE)
  from m sample_savings have merged: "merged = [\<lparr>imo = ''IMO1'', anc_after_jit = Some 3, anc_before_jit = Some 5,
            anc_savings_after_jit = Some 2, savings_range = Some ''1-10''\<rparr>,
          \<lparr>imo = ''IMO2'', anc_after_jit = Some 0, anc_before_jit = Some 2,
            anc_savings_after_jit = Some 2, savings_range = Some ''1-10''\<rparr>]"
    by simp
  from ex [rule_format, OF b] have "\<lparr>imo = ''IMO2'', anc_after_jit = Some 0, anc_before_jit = Some 2,
            anc_savings_after_jit = Some 2, savings_range = savings_range_of (Some 2)\<rparr>
       \<in> set [\<lparr>imo = ''IMO1'', anc_after_jit = Some 3, anc_before_jit = Some 5,
            anc_savings_after_jit = Some 2, savings_range = Some ''1-10''\<rparr>,
          \<lparr>imo = ''IMO2'', anc_after_jit = Some 0, anc_before_jit = Some 2,
            anc_savings_after_jit = Some 2, savings_range = Some ''1-10''\<rparr>]"
    unfolding merged by (simp add: cell_or_0_def)
  with sample_savings b show ?thesis by (intro conjI) (simp_all only: simp_thms)
qed

section \<open>One row per vessel\<close>

text \<open>
  The claim as written fails for Job C when an input table has two rows for one
  vessel: the outer merge keeps both, and the output has two rows for it.
\<close>

theorem duplicate_vessel_two_rows:
  "calculate_emission_savings (Some duplicate_before) (Some sample_after) =
     Inr [\<lparr>imo = ''IMO1'', anc_after_jit = Some 3, anc_before_jit = Some 1,
            anc_savings_after_jit = Some (- 2), savings_range = Some ''Negative''\<rparr>,
          \<lparr>imo = ''IMO1'', anc_after_jit = Some 3, anc_before_jit = Some 2,
            anc_savings_after_jit = Some (- 1), savings_range = Some ''Negative''\<rparr>]
   \<and> ''IMO1'' \<in> fst ` set duplicate_before
   \<and> \<not> distinct (map imo
        [\<lparr>imo = ''IMO1'', anc_after_jit = Some 3, anc_before_jit = Some 1,
            anc_savings_after_jit = Some (- 2), savings_range = Some ''Negative''\<rparr>,
          \<lparr>imo = ''IMO1'', anc_after_jit = Some 3, anc_before_jit = Some 2,
            anc_savings_after_jit = Some (- 1), savings_range = Some ''Negative''\<rparr>])"
  by (simp add: duplicate_savings) (simp add: duplicate_before_def)

text \<open>
  C3 (amended): Job B, whenever it runs to its end, returns exactly one row for every
  vessel identifier of its input table and no other row; \<open>aggregate_and_analyze_emissions\<close>
  returns exactly one row for every identifier of a duplicate-free \<open>all_imos\<close>, and the
  row of a vessel with no record in the data has emissions 0; Job C, when each of its
  two input tables has at most one row per identifier, returns exactly one row for
  every identifier of either table, with 0 for the side that has no row for it.
\<close>

theorem one_row_per_vessel:
  "(timestamp_dtype ais_data \<noteq> No_column \<longrightarrow>
      (\<exists>fin. main ais_data aux_engine_factors boiler_engine_factors = Inr fin
         \<and> distinct (map imo fin) \<and> set (map imo fin) = imo ` set (rows ais_data)))
   \<and> (distinct all_imos \<longrightarrow>
        distinct (map imo (aggregate_and_analyze_emissions data all_imos))
        \<and> set (map imo (aggregate_and_analyze_emissions data all_imos)) = set all_imos)
   \<and> (\<forall>r\<in>set (aggregate_and_analyze_emissions data all_imos).
         imo r \<notin> imo ` set data \<longrightarrow> anc_after_jit r = Some 0)
   \<and> (distinct (map fst before_jit) \<and> distinct (map fst after_jit) \<longrightarrow>
        (\<exists>merged. calculate_emission_savings (Some before_jit) (Some after_jit) = Inr merged
           \<and> distinct (map imo merged)
           \<and> set (map imo merged) = fst ` set before_jit \<union> fst ` set after_jit
           \<and> (\<forall>r\<in>set merged. (imo r \<notin> fst ` set after_jit \<longrightarrow> anc_after_jit r = Some 0)
                 \<and> (imo r \<notin> fst ` set before_jit \<longrightarrow> anc_before_jit r = Some 0))))"
proof -
  have job_b: "timestamp_dtype ais_data \<noteq> No_column \<longrightarrow>
      (\<exists>fin. main ais_data aux_engine_factors boiler_engine_factors = Inr fin
         \<and> distinct (map imo fin) \<and> set (map imo fin) = imo ` set (rows ais_data))"
  proof
    assume "timestamp_dtype ais_data \<noteq> No_column"
    from main_total [OF this] obtain fin where
      fin: "main ais_data aux_engine_factors boiler_engine_factors = Inr fin" by blast
    show "\<exists>fin. main ais_data aux_engine_factors boiler_engine_factors = Inr fin
         \<and> distinct (map imo fin) \<and> set (map imo fin) = imo ` set (rows ais_data)"
      by (rule exI [of _ fin]) (intro conjI fin main_one_row [OF fin])
  qed
  have agg: "distinct all_imos \<longrightarrow>
        distinct (map imo (aggregate_and_analyze_emissions data all_imos))
        \<and> set (map imo (aggregate_and_analyze_emissions data all_imos)) = set all_imos"
    using aggregate_one_row [of all_imos data] by (intro impI conjI)
  have zero: "\<forall>r\<in>set (aggregate_and_analyze_emissions data all_imos).
         imo r \<notin> imo ` set data \<longrightarrow> anc_after_jit r = Some 0"
    using aggregate_zero [of _ data all_imos] by (intro ballI impI)
  have job_c: "distinct (map fst before_jit) \<and> distinct (map fst after_jit) \<longrightarrow>
        (\<exists>merged. calculate_emission_savings (Some before_jit) (Some after_jit) = Inr merged
           \<and> distinct (map imo merged)
           \<and> set (map imo merged) = fst ` set before_jit \<union> fst ` set after_jit
           \<and> (\<forall>r\<in>set merged. (imo r \<notin> fst ` set after_jit \<longrightarrow> anc_after_jit r = Some 0)
                 \<and> (imo r \<notin> fst ` set before_jit \<longrightarrow> anc_before_jit r = Some 0)))"
  proof
    assume d: "distinct (map fst before_jit) \<and> distinct (map fst after_jit)"
    obtain merged where run: "calculate_emission_savings (Some before_jit) (Some after_jit) = Inr merged"
      by (simp add: calculate_emission_savings_Inr)
    have one: "distinct (map imo merged)"
      using savings_one_row [OF _ _ run] d by simp
    have keys: "set (map imo merged) = fst ` set before_jit \<union> fst ` set after_jit"
      unfolding savings_imos [OF run] by (simp add: merge_outer_keys)
    have fill: "\<forall>r\<in>set merged. (imo r \<notin> fst ` set after_jit \<longrightarrow> anc_after_jit r = Some 0)
                 \<and> (imo r \<notin> fst ` set before_jit \<longrightarrow> anc_before_jit r = Some 0)"
      by (intro ballI) (rule savings_zero_fill [OF run])
    show "\<exists>merged. calculate_emission_savings (Some before_jit) (Some after_jit) = Inr merged
           \<and> distinct (map imo merged)
           \<and> set (map imo merged) = fst ` set before_jit \<union> fst ` set after_jit
           \<and> (\<forall>r\<in>set merged. (imo r \<notin> fst ` set after_jit \<longrightarrow> anc_after_jit r = Some 0)
                 \<and> (imo r \<notin> fst ` set before_jit \<longrightarrow> anc_before_jit r = Some 0))"
      by (rule exI [of _ merged]) (intro conjI run one keys fill)
  qed
  show ?thesis by (intro conjI job_b agg zero job_c)
qed

theorem one_row_per_vessel_witness:
  "timestamp_dtype sample_ais \<noteq> No_column
   \<and> (\<exists>fin. main sample_ais sample_aux_factors sample_boiler_factors = Inr fin \<and> map imo fin = [''IMO1''])
   \<and> distinct [''IMO2'', ''IMO1'']
   \<and> map imo (aggregate_and_analyze_emissions [] [''IMO2'', ''IMO1'']) = [''IMO1'', ''IMO2'']
   \<and> map anc_after_jit (aggregate_and_analyze_emissions [] [''IMO2'', ''IMO1'']) = [Some 0, Some 0]
   \<and> distinct (map fst sample_before) \<and> distinct (map fst sample_after)
   \<and> (\<exists>merged. calculate_emission_savings (Some sample_before) (Some sample_after) = Inr merged
         \<and> map imo merged = [''IMO1'', ''IMO2''] \<and> distinct (map imo merged))"
proof -
  note inst = one_row_per_vessel [of sample_ais sample_aux_factors sample_boiler_factors
      "[''IMO2'', ''IMO1'']" "[]" sample_before sample_after]
  have ts: "timestamp_dtype sample_ais \<noteq> No_column" by (simp add: sample_ais_def)
  from inst [THEN conjunct1, rule_format, OF ts] obtain fin where
    fin: "main sample_ais sample_aux_factors sample_boiler_factors = Inr fin"
      "distinct (map imo fin)" "set (map imo fin) = imo ` set (rows sample_ais)"
    by (elim exE conjE)
  have "imo ` set (rows sample_ais) = {''IMO1''}" by (simp add: sample_ais_def)
  with fin(2,3) have "map imo fin = [''IMO1'']" by (simp add: distinct_singleton_set)
  with fin(1) have b: "\<exists>fin. main sample_ais sample_aux_factors sample_boiler_factors = Inr fin
      \<and> map imo fin = [''IMO1'']" by (intro exI [of _ fin] conjI)
  have d: "distinct [''IMO2'', ''IMO1'']" by simp
  have agg: "aggregate_and_analyze_emissions [] [''IMO2'', ''IMO1'']
      = [\<lparr>imo = ''IMO1'', anc_after_jit = Some 0, emission_range = None\<rparr>,
         \<lparr>imo = ''IMO2'', anc_after_jit = Some 0, emission_range = None\<rparr>]"
    by (simp add: aggregate_eq emission_range_of_def cut_def searchsorted_left_def)
  have dd: "distinct (map fst sample_before) \<and> distinct (map fst sample_after)"
    by (simp add: sample_before_def sample_after_def)
  from inst [THEN conjunct2, THEN conjunct2, THEN conjunct2, rule_format, OF dd] obtain merged where
    m: "calculate_emission_savings (Some sample_before) (Some sample_after) = Inr merged"
      "distinct (map imo merged)"
    by (elim exE conjE)
  from m(1) sample_savings have "map imo merged = [''IMO1'', ''IMO2'']" by auto
  with m have c: "\<exists>merged. calculate_emission_savings (Some sample_before) (Some sample_after) = Inr merged
         \<and> map imo merged = [''IMO1'', ''IMO2''] \<and> distinct (map imo merged)"
    by (intro exI [of _ merged] conjI)
  have a1: "map imo (aggregate_and_analyze_emissions [] [''IMO2'', ''IMO1'']) = [''IMO1'', ''IMO2'']"
    and a2: "map anc_after_jit (aggregate_and_analyze_emissions [] [''IMO2'', ''IMO1'']) = [Some 0, Some 0]"
    unfolding agg by simp_all
  from dd have dd1: "distinct (map fst sample_before)" and dd2: "distinct (map fst sample_after)"
    by simp_all
  show ?thesis
    by (intro conjI ts b d a1 a2 dd1 dd2 c)
qed

section \<open>Signs of emissions and savings\<close>

text \<open>
  The claim as written includes the per-vessel values of Job A. Job A derives nothing
  from activity records: it returns the values of the table it reads, so a negative
  value in that table is a negative value in its output.
\<close>

theorem job_a_returns_negative_value:
  "load_and_analyze_data negative_before = [(''IMO1'', Some (- 5), None)]
   \<and> \<not> (0 :: rat) \<le> - 5"
  by (simp add: load_and_analyze_data_def negative_before_def emission_range_of_def cut_def
      searchsorted_left_def)

text \<open>
  C7 (amended): for a record whose loads, factors and duration are present and
  non-negative, the auxiliary, boiler and total emissions (grams and tonnes) that Job B
  computes are non-negative; when every record of the merged data is such a record,
  every per-vessel value that \<open>aggregate_and_analyze_emissions\<close> returns for its
  emissions is non-negative; Job A computes no emissions and returns the rows
  (identifier, value) of its input table unchanged; and Job C returns as savings the
  before value minus the after value, unchanged, which is negative when the after value
  is the larger one (1 - 3 = -2 in the example).
\<close>

theorem emissions_nonnegative_savings_unclamped:
  "(\<forall>a b e f d. ael m = Some a \<and> abl m = Some b \<and> sfc_ae m = Some e \<and> sfc_ab m = Some f
        \<and> activity_duration_hours m = Some d \<and> 0 \<le> a \<and> 0 \<le> b \<and> 0 \<le> e \<and> 0 \<le> f \<and> 0 \<le> d \<longrightarrow>
      (\<exists>x y. aux_emissions_after_jit (calculate_emissions_after_jit_row m) = Some x \<and> 0 \<le> x
         \<and> boiler_emissions_after_jit (calculate_emissions_after_jit_row m) = Some y \<and> 0 \<le> y
         \<and> total_emissions_grams_after_jit (calculate_emissions_after_jit_row m) = Some (x + y)
         \<and> total_emissions_tonnes_after_jit (calculate_emissions_after_jit_row m) = Some ((x + y) / 1000000)
         \<and> 0 \<le> (x + y) / 1000000))
   \<and> ((\<forall>m\<in>set merged_data. \<exists>a b e f d. ael m = Some a \<and> abl m = Some b \<and> sfc_ae m = Some e
           \<and> sfc_ab m = Some f \<and> activity_duration_hours m = Some d
           \<and> 0 \<le> a \<and> 0 \<le> b \<and> 0 \<le> e \<and> 0 \<le> f \<and> 0 \<le> d) \<longrightarrow>
        (\<forall>r\<in>set (aggregate_and_analyze_emissions (calculate_emissions_after_jit merged_data) all_imos).
            \<exists>v. anc_after_jit r = Some v \<and> 0 \<le> v))
   \<and> mset (map (\<lambda>(i, v, l). (i, v)) (load_and_analyze_data emissions_df)) = mset emissions_df
   \<and> (\<exists>merged. calculate_emission_savings (Some before_jit) (Some after_jit) = Inr merged
         \<and> (\<forall>r\<in>set merged. anc_savings_after_jit r = nsub (anc_before_jit r) (anc_after_jit r)))
   \<and> calculate_emission_savings (Some smaller_before) (Some sample_after) =
        Inr [\<lparr>imo = ''IMO1'', anc_after_jit = Some 3, anc_before_jit = Some 1,
               anc_savings_after_jit = Some (- 2), savings_range = Some ''Negative''\<rparr>]"
proof -
  have rec: "\<forall>a b e f d. ael m = Some a \<and> abl m = Some b \<and> sfc_ae m = Some e \<and> sfc_ab m = Some f
        \<and> activity_duration_hours m = Some d \<and> 0 \<le> a \<and> 0 \<le> b \<and> 0 \<le> e \<and> 0 \<le> f \<and> 0 \<le> d \<longrightarrow>
      (\<exists>x y. aux_emissions_after_jit (calculate_emissions_after_jit_row m) = Some x \<and> 0 \<le> x
         \<and> boiler_emissions_after_jit (calculate_emissions_after_jit_row m) = Some y \<and> 0 \<le> y
         \<and> total_emissions_grams_after_jit (calculate_emissions_after_jit_row m) = Some (x + y)
         \<and> total_emissions_tonnes_after_jit (calculate_emissions_after_jit_row m) = Some ((x + y) / 1000000)
         \<and> 0 \<le> (x + y) / 1000000)"
  proof (intro allI impI)
    fix a b e f d
    assume h: "ael m = Some a \<and> abl m = Some b \<and> sfc_ae m = Some e \<and> sfc_ab m = Some f
        \<and> activity_duration_hours m = Some d \<and> 0 \<le> a \<and> 0 \<le> b \<and> 0 \<le> e \<and> 0 \<le> f \<and> 0 \<le> d"
    then have "ael m = Some a" "abl m = Some b" "sfc_ae m = Some e" "sfc_ab m = Some f"
      "activity_duration_hours m = Some d" "0 \<le> a" "0 \<le> b" "0 \<le> e" "0 \<le> f" "0 \<le> d"
      by simp_all
    then show "\<exists>x y. aux_emissions_after_jit (calculate_emissions_after_jit_row m) = Some x \<and> 0 \<le> x
         \<and> boiler_emissions_after_jit (calculate_emissions_after_jit_row m) = Some y \<and> 0 \<le> y
         \<and> total_emissions_grams_after_jit (calculate_emissions_after_jit_row m) = Some (x + y)
         \<and> total_emissions_tonnes_after_jit (calculate_emissions_after_jit_row m) = Some ((x + y) / 1000000)
         \<and> 0 \<le> (x + y) / 1000000"
      by (rule emissions_row_nonneg)
  qed
  have agg: "(\<forall>m\<in>set merged_data. \<exists>a b e f d. ael m = Some a \<and> abl m = Some b \<and> sfc_ae m = Some e
           \<and> sfc_ab m = Some f \<and> activity_duration_hours m = Some d
           \<and> 0 \<le> a \<and> 0 \<le> b \<and> 0 \<le> e \<and> 0 \<le> f \<and> 0 \<le> d) \<longrightarrow>
        (\<forall>r\<in>set (aggregate_and_analyze_emissions (calculate_emissions_after_jit merged_data) all_imos).
            \<exists>v. anc_after_jit r = Some v \<and> 0 \<le> v)"
  proof (intro impI ballI)
    fix r
    assume h: "\<forall>m\<in>set merged_data. \<exists>a b e f d. ael m = Some a \<and> abl m = Some b \<and> sfc_ae m = Some e
           \<and> sfc_ab m = Some f \<and> activity_duration_hours m = Some d
           \<and> 0 \<le> a \<and> 0 \<le> b \<and> 0 \<le> e \<and> 0 \<le> f \<and> 0 \<le> d"
      and r: "r \<in> set (aggregate_and_analyze_emissions (calculate_emissions_after_jit merged_data) all_imos)"
    have "0 \<le> t" if q: "q \<in> set (calculate_emissions_after_jit merged_data)"
      and t: "total_emissions_tonnes_after_jit q = Some t" for q t
    proof -
      from q obtain m where m: "m \<in> set merged_data" "q = calculate_emissions_after_jit_row m"
        by (auto simp: calculate_emissions_after_jit_def)
      from h m(1) obtain a b e f d where
        "ael m = Some a" "abl m = Some b" "sfc_ae m = Some e" "sfc_ab m = Some f"
        "activity_duration_hours m = Some d" "0 \<le> a" "0 \<le> b" "0 \<le> e" "0 \<le> f" "0 \<le> d"
        by (auto dest!: bspec)
      from emissions_row_nonneg [OF this] obtain x y where
        "total_emissions_tonnes_after_jit (calculate_emissions_after_jit_row m) = Some ((x + y) / 1000000)"
        "0 \<le> (x + y) / 1000000" by (elim exE conjE)
      with t m(2) show ?thesis by simp
    qed
    from aggregate_nonneg [OF this r] show "\<exists>v. anc_after_jit r = Some v \<and> 0 \<le> v" .
  qed
  have job_a: "mset (map (\<lambda>(i, v, l). (i, v)) (load_and_analyze_data emissions_df)) = mset emissions_df"
    by (rule load_and_analyze_data_rows)
  have job_c: "\<exists>merged. calculate_emission_savings (Some before_jit) (Some after_jit) = Inr merged
         \<and> (\<forall>r\<in>set merged. anc_savings_after_jit r = nsub (anc_before_jit r) (anc_after_jit r))"
  proof -
    obtain merged where run: "calculate_emission_savings (Some before_jit) (Some after_jit) = Inr merged"
      by (simp add: calculate_emission_savings_Inr)
    have "anc_savings_after_jit r = nsub (anc_before_jit r) (anc_after_jit r)" if "r \<in> set merged" for r
    proof -
      from savings_row_cells [OF run that] obtain x y where
        "anc_before_jit r = Some (cell_or_0 x)" "anc_after_jit r = Some (cell_or_0 y)"
        "anc_savings_after_jit r = Some (cell_or_0 x - cell_or_0 y)" by (elim exE conjE)
      then show ?thesis by (simp add: nsub_def)
    qed
    then have "\<forall>r\<in>set merged. anc_savings_after_jit r = nsub (anc_before_jit r) (anc_after_jit r)"
      by (intro ballI)
    with run show ?thesis by (intro exI [of _ merged] conjI)
  qed
  show ?thesis by (intro conjI rec agg job_a job_c smaller_savings)
qed

theorem emissions_nonnegative_savings_unclamped_witness:
  "ael (sample_merged ! 1) = Some 10 \<and> abl (sample_merged ! 1) = Some 4
   \<and> sfc_ae (sample_merged ! 1) = Some 2 \<and> sfc_ab (sample_merged ! 1) = Some 1
   \<and> activity_duration_hours (sample_merged ! 1) = Some 5
   \<and> (\<exists>t. total_emissions_tonnes_after_jit (calculate_emissions_after_jit_row (sample_merged ! 1)) = Some t
          \<and> 0 \<le> t)
   \<and> (\<exists>r v. aggregate_and_analyze_emissions (calculate_emissions_after_jit [sample_merged ! 1]) [''IMO1''] = [r]
          \<and> anc_after_jit r = Some v \<and> 0 \<le> v)
   \<and> load_and_analyze_data smaller_before = [(''IMO1'', Some 1, Some ''0-1'')]
   \<and> (\<exists>merged. calculate_emission_savings (Some smaller_before) (Some sample_after) = Inr merged
          \<and> map anc_savings_after_jit merged = [Some (- 2)])"
proof -
  let ?m = "sample_merged ! 1"
  let ?data = "calculate_emissions_after_jit [?m]"
  note inst = emissions_nonnegative_savings_unclamped
      [of ?m "[?m]" "[''IMO1'']" smaller_before smaller_before sample_after]
  have cells: "ael ?m = Some 10" "abl ?m = Some 4" "sfc_ae ?m = Some 2" "sfc_ab ?m = Some 1"
    "activity_duration_hours ?m = Some 5"
    by (simp_all add: sample_merged_def)
  have pre: "ael ?m = Some 10 \<and> abl ?m = Some 4 \<and> sfc_ae ?m = Some 2 \<and> sfc_ab ?m = Some 1
        \<and> activity_duration_hours ?m = Some 5 \<and> (0::rat) \<le> 10 \<and> (0::rat) \<le> 4 \<and> (0::rat) \<le> 2
        \<and> (0::rat) \<le> 1 \<and> (0::rat) \<le> 5"
    using cells by simp
  from inst [THEN conjunct1, rule_format, OF pre] obtain x y where
    t: "total_emissions_tonnes_after_jit (calculate_emissions_after_jit_row ?m) = Some ((x + y) / 1000000)"
      "0 \<le> (x + y) / 1000000"
    by (elim exE conjE)
  then have c1: "\<exists>t. total_emissions_tonnes_after_jit (calculate_emissions_after_jit_row ?m) = Some t \<and> 0 \<le> t"
    by (intro exI [of _ "(x + y) / 1000000"] conjI)
  have h: "\<forall>m\<in>set [?m]. \<exists>a b e f d. ael m = Some a \<and> abl m = Some b \<and> sfc_ae m = Some e
           \<and> sfc_ab m = Some f \<and> activity_duration_hours m = Some d
           \<and> 0 \<le> a \<and> 0 \<le> b \<and> 0 \<le> e \<and> 0 \<le> f \<and> 0 \<le> d"
    using cells by simp
  have agg: "aggregate_and_analyze_emissions ?data [''IMO1'']
      = [\<lparr>imo = ''IMO1'', anc_after_jit = Some (28613601 / 125000000000), emission_range = Some ''Zero''\<rparr>]"
    by (simp add: aggregate_eq calculate_emissions_after_jit_def calculate_emissions_after_jit_row_sel
        sample_merged_def cell_or_0_def
        notna_def nmul_def nadd_def ndiv_def clip_upper_def emission_range_of_def cut_def searchsorted_left_def)
  let ?r = "\<lparr>imo = ''IMO1'', anc_after_jit = Some (28613601 / 125000000000), emission_range = Some ''Zero''\<rparr>"
  have mem: "?r \<in> set (aggregate_and_analyze_emissions ?data [''IMO1''])" unfolding agg by simp
  from inst [THEN conjunct2, THEN conjunct1, THEN mp, OF h, THEN bspec, OF mem]
  obtain v where v: "anc_after_jit ?r = Some v" "0 \<le> v" by (elim exE conjE)
  have c2: "\<exists>r v. aggregate_and_analyze_emissions ?data [''IMO1''] = [r] \<and> anc_after_jit r = Some v \<and> 0 \<le> v"
    by (rule exI [of _ ?r], rule exI [of _ v]) (intro conjI agg v)
  have c3: "load_and_analyze_data smaller_before = [(''IMO1'', Some 1, Some ''0-1'')]"
    by (simp add: load_and_analyze_data_def smaller_before_def emission_range_of_def cut_def searchsorted_left_def)
  from inst [THEN conjunct2, THEN conjunct2, THEN conjunct2, THEN conjunct2]
  have "calculate_emission_savings (Some smaller_before) (Some sample_after) =
        Inr [\<lparr>imo = ''IMO1'', anc_after_jit = Some 3, anc_before_jit = Some 1,
               anc_savings_after_jit = Some (- 2), savings_range = Some ''Negative''\<rparr>]" .
  then have c4: "\<exists>merged. calculate_emission_savings (Some smaller_before) (Some sample_after) = Inr merged
          \<and> map anc_savings_after_jit merged = [Some (- 2)]"
    by simp
  show ?thesis
    by (intro conjI cells c1 c2 c3 c4)
qed

end
